theory Spec2Isabelle
  imports Main "HOL-Library.AList"
begin

section \<open>Exceptions and values\<close>

text \<open>
  Python exceptions are values. \<open>KeyboardInterrupt\<close> and \<open>SystemExit\<close> derive from
  \<open>BaseException\<close> only; every other exception is an \<open>Exception\<close> of some class.
  The string of an \<open>Exception\<close> is what \<open>exc.__repr__()\<close> returns for it. For the
  errors the functions of \<open>flow_run.py\<close> raise themselves the text is abbreviated
  (their messages interpolate objects whose formatting is outside this development).
\<close>

datatype exc_class =
  ValueError | TypeError | RuntimeError | AttributeError | UnboundLocalError | KeyError
  | OtherError string

datatype exn = KeyboardInterrupt | SystemExit | Exception exc_class string

datatype pyval = IntV int | StrV string

type_synonym secrets_map = "string \<rightharpoonup> pyval"

section \<open>States\<close>

text \<open>
  Modelled from the spec: \<open>prefect.engine.state.State\<close> is not part of the sources.
  The spec gives a tagged value, one of Scheduled/Running/Failed/Success/Cancelled/Mapped,
  with the predicates \<open>is_running()\<close>, \<open>is_finished()\<close> and \<open>is_mapped()\<close>; Failed and
  Cancelled carry the message they are built with.
\<close>

datatype state = Scheduled | Running | Success | Failed string | Cancelled string | Mapped

fun is_running :: "state \<Rightarrow> bool" where
  "is_running Running = True"
| "is_running _ = False"

fun is_finished :: "state \<Rightarrow> bool" where
  "is_finished Scheduled = False"
| "is_finished Running = False"
| "is_finished _ = True"

fun is_mapped :: "state \<Rightarrow> bool" where
  "is_mapped Mapped = True"
| "is_mapped _ = False"

section \<open>Task runs and the remote store\<close>

text \<open>
  Modelled from the spec: \<open>prefect.backend.task_run.TaskRun\<close> is not part of the sources.
  The spec's TaskRunRecord has a task-run id, a task slug, a map index (\<open>-1\<close> for the base
  record) and a state; a row of the remote store also names its flow run.
  \<open>slug_attr\<close> is the attribute \<open>slug\<close> that \<open>iter_mapped\<close> reads from a task run when
  it builds its error message (every other place of \<open>flow_run.py\<close> reads \<open>task_slug\<close>):
  \<open>None\<close> when the object has no such attribute, so that reading it raises
  \<open>AttributeError\<close>. The spec's TaskRunRecord has no such attribute, and the records of the
  examples below have none.
\<close>

record task_run =
  task_run_id :: string
  task_slug :: string
  map_index :: int
  task_state :: state
  task_flow_run_id :: string
  slug_attr :: "string option"

text \<open>A Hasura \<open>where\<close> clause of equality filters, as the queries of \<open>flow_run.py\<close> build them.\<close>

record where_clause =
  where_id :: "string option"
  where_slug :: "string option"
  where_flow_run_id :: "string option"
  where_map_index :: "int option"

definition matches :: "where_clause \<Rightarrow> task_run \<Rightarrow> bool" where
  "matches wh t =
     ((case where_id wh of None \<Rightarrow> True | Some i \<Rightarrow> task_run_id t = i) \<and>
      (case where_slug wh of None \<Rightarrow> True | Some s \<Rightarrow> task_slug t = s) \<and>
      (case where_flow_run_id wh of None \<Rightarrow> True | Some r \<Rightarrow> task_flow_run_id t = r) \<and>
      (case where_map_index wh of None \<Rightarrow> True | Some k \<Rightarrow> map_index t = k))"

text \<open>The flow-side objects a flow run refers to: opaque handles with the attributes read.\<close>

record flow =
  flow_label :: string
  executor :: string
  environment :: string

record storage =
  storage_ref :: string
  secrets :: "string list"

record flow_run_data =
  data_name :: string
  data_flow_id :: string
  data_state :: state
  data_storage :: "storage option"
  data_run_config :: "string option"
  data_flow_name :: string

record log_entry =
  log_flow_run_id :: string
  log_name :: string
  log_message :: string
  log_level :: string

text \<open>
  A keyword argument or dict entry the code reads: the key is absent, or present with the
  value \<open>None\<close>, or present with a value of the expected kind.
\<close>

datatype 'a kwarg = Absent | PyNone | Given 'a

record run_context =
  ctx_secrets :: "secrets_map kwarg"
  ctx_other :: "(string \<times> pyval) list"

record run_kwargs =
  kw_context :: "run_context kwarg"
  kw_executor :: "string kwarg"
  kw_other :: "(string \<times> pyval) list"

text \<open>Every call made to a collaborator is appended to a trace.\<close>

datatype call =
  Graphql_flow_run_by_pk string
  | Graphql_task_run_ids string
  | Query_task_runs where_clause
  | Set_flow_run_state string state
  | Write_run_logs "log_entry list"
  | Secret_run string
  | Get_flow string string
  | Runner_run string flow run_kwargs
  | Environment_setup string flow
  | Environment_execute string flow

text \<open>
  The world outside the process: the remote tables, the run logs, the ambient
  \<open>prefect.context\<close> entry \<open>secrets\<close>, and the trace. \<open>task_run_tbl = None\<close> is a remote
  that answers a task-run query without data.
\<close>

record world =
  flow_run_tbl :: "string \<rightharpoonup> flow_run_data"
  task_run_tbl :: "task_run list option"
  run_logs :: "log_entry list"
  context_secrets :: "secrets_map option"
  calls :: "call list"

definition record_call :: "call \<Rightarrow> world \<Rightarrow> world" where
  "record_call c w = w\<lparr>calls := calls w @ [c]\<rparr>"

definition record_calls :: "call list \<Rightarrow> world \<Rightarrow> world" where
  "record_calls cs w = w\<lparr>calls := calls w @ cs\<rparr>"

text \<open>
  Modelled from the spec: \<open>TaskRun.query_for_task_runs\<close> is not part of the sources. The
  spec lists a filtered bulk lookup (\<open>many=True\<close>) and point lookups with an
  "error on empty" toggle (on by default, as the call sites of \<open>flow_run.py\<close> show); a
  point lookup that finds several rows is an error.
\<close>

definition query_for_task_runs ::
  "where_clause \<Rightarrow> bool \<Rightarrow> bool \<Rightarrow> world \<Rightarrow> (exn + task_run list) \<times> world" where
  "query_for_task_runs wh many error_on_empty w =
     (let w' = record_call (Query_task_runs wh) w in
      case task_run_tbl w of
        None \<Rightarrow> (Inl (Exception ValueError ''bad result while querying for task runs''), w')
      | Some tbl \<Rightarrow>
          (case filter (matches wh) tbl of
             [] \<Rightarrow> (if error_on_empty
                    then (Inl (Exception ValueError ''no task runs found''), w')
                    else (Inr [], w'))
           | [r] \<Rightarrow> (Inr [r], w')
           | r # r' # rs \<Rightarrow>
               (if many then (Inr (r # r' # rs), w')
                else (Inl (Exception ValueError ''found multiple task runs''), w'))))"

text \<open>
  Modelled from the spec: \<open>TaskRun.from_task_run_data\<close> (deserialization, out of scope)
  turns a row into a record; rows are kept as records here.
\<close>

definition from_task_run_data :: "task_run \<Rightarrow> task_run" where
  "from_task_run_data d = d"

definition where_any :: where_clause where
  "where_any = \<lparr>where_id = None, where_slug = None, where_flow_run_id = None,
     where_map_index = None\<rparr>"

text \<open>
  Modelled from the spec: \<open>TaskRun.from_task_run_id\<close> and \<open>TaskRun.from_task_slug\<close> are
  not part of the sources; the spec lists a point lookup by id and a point lookup by
  (slug, run id). All records of a mapped family share the slug, and the comment at lines
  314-315 of \<open>flow_run.py\<close> says that the query by slug is for the base record, so the
  lookup by slug filters on the map index \<open>-1\<close>.
\<close>

definition from_task_run_id :: "string \<Rightarrow> world \<Rightarrow> (exn + task_run) \<times> world" where
  "from_task_run_id i w =
     (case query_for_task_runs (where_any\<lparr>where_id := Some i\<rparr>) False True w of
        (Inl e, w') \<Rightarrow> (Inl e, w')
      | (Inr [], w') \<Rightarrow> (Inl (Exception ValueError ''no task runs found''), w')
      | (Inr (d # _), w') \<Rightarrow> (Inr (from_task_run_data d), w'))"

definition from_task_slug :: "string \<Rightarrow> string \<Rightarrow> world \<Rightarrow> (exn + task_run) \<times> world" where
  "from_task_slug s rid w =
     (case query_for_task_runs
             (where_any\<lparr>where_slug := Some s, where_flow_run_id := Some rid,
                where_map_index := Some (- 1)\<rparr>) False True w of
        (Inl e, w') \<Rightarrow> (Inl e, w')
      | (Inr [], w') \<Rightarrow> (Inl (Exception ValueError ''no task runs found''), w')
      | (Inr (d # _), w') \<Rightarrow> (Inr (from_task_run_data d), w'))"

section \<open>The class \<open>FlowRun\<close>\<close>

text \<open>
  The fields \<open>priv_task_run_ids\<close>, \<open>priv_task_runs\<close> and
  \<open>priv_task_slug_to_task_run_ids\<close> are the attributes \<open>_task_run_ids\<close>, \<open>_task_runs\<close>
  and \<open>_task_slug_to_task_run_ids\<close>. The dict \<open>_task_runs\<close> is an association list in
  insertion order (its \<open>values()\<close> are read by \<open>update\<close>). A Python set of ids is a list
  here; the order of the list stands for the order in which Python iterates the set, which
  the language leaves open, so the theorems below hold for every order.
\<close>

record flow_run =
  flow_run_id :: string
  name :: string
  flow_id :: string
  flow_name :: string
  flow_storage :: "storage option"
  flow_run_config :: "string option"
  state :: state
  priv_task_run_ids :: "string list option"
  priv_task_runs :: "(string \<times> task_run) list"
  priv_task_slug_to_task_run_ids :: "string \<rightharpoonup> string list"

definition set_add :: "'a \<Rightarrow> 'a list \<Rightarrow> 'a list" where
  "set_add x xs = (if x \<in> set xs then xs else xs @ [x])"

text \<open>\<open>_add_task_run\<close>; indexing the \<open>defaultdict(set)\<close> creates a missing entry.\<close>

definition add_task_run :: "task_run \<Rightarrow> flow_run \<Rightarrow> flow_run" where
  "add_task_run tr fr =
     fr\<lparr>priv_task_runs := AList.update (task_run_id tr) tr (priv_task_runs fr),
        priv_task_slug_to_task_run_ids :=
          (priv_task_slug_to_task_run_ids fr)(task_slug tr \<mapsto>
             set_add (task_run_id tr)
               (case priv_task_slug_to_task_run_ids fr (task_slug tr) of
                  None \<Rightarrow> [] | Some ids \<Rightarrow> ids))\<rparr>"

text \<open>\<open>FlowRun.__init__\<close>: the fields, empty caches, then every given task run is added.\<close>

definition FlowRun_init ::
  "string \<Rightarrow> string \<Rightarrow> string \<Rightarrow> string \<Rightarrow> storage option \<Rightarrow> string option \<Rightarrow> state \<Rightarrow>
   task_run list option \<Rightarrow> flow_run" where
  "FlowRun_init rid nm fid fname fstorage config st trs =
     foldl (\<lambda>fr tr. add_task_run tr fr)
       \<lparr>flow_run_id = rid, name = nm, flow_id = fid, flow_name = fname,
        flow_storage = fstorage, flow_run_config = config, state = st,
        priv_task_run_ids = None, priv_task_runs = [],
        priv_task_slug_to_task_run_ids = Map.empty\<rparr>
       (case trs of None \<Rightarrow> [] | Some ts \<Rightarrow> ts)"

text \<open>The property \<open>task_runs\<close>: a read-only view of \<open>_task_runs\<close>.\<close>

definition task_runs :: "flow_run \<Rightarrow> (string \<rightharpoonup> task_run)" where
  "task_runs fr = map_of (priv_task_runs fr)"

subsection \<open>\<open>FlowRun.get\<close>\<close>

text \<open>A task of the flow; its \<open>slug\<close> may be unset.\<close>

record task =
  slug :: "string option"

definition falsy :: "string option \<Rightarrow> bool" where
  "falsy s = (s = None \<or> s = Some [])"

text \<open>Lines 264-282: the slug the lookup uses, from \<open>task\<close> and \<open>task_slug\<close>.\<close>

definition get_slug :: "task option \<Rightarrow> string option \<Rightarrow> exn + string option" where
  "get_slug tk tslug =
     (case tk of
        None \<Rightarrow> Inr tslug
      | Some t \<Rightarrow>
          if falsy (slug t) \<and> falsy tslug
          then Inl (Exception ValueError ''task does not have a slug set'')
          else if tslug \<noteq> None \<and> tslug \<noteq> slug t
          then Inl (Exception ValueError ''task and task_slug contain different slug values'')
          else if falsy tslug then Inr (slug t) else Inr tslug)"

text \<open>
  Lines 309-312: the loop over the ids of a slug, returning the first cached record with
  map index \<open>-1\<close>; \<open>self.task_runs[task_run_id]\<close> raises \<open>KeyError\<close> on a missing id.
\<close>

fun find_base :: "(string \<rightharpoonup> task_run) \<Rightarrow> string list \<Rightarrow> exn + task_run option" where
  "find_base m [] = Inr None"
| "find_base m (i # ids) =
     (case m i of
        None \<Rightarrow> Inl (Exception KeyError i)
      | Some r \<Rightarrow> if map_index r = - 1 then Inr (Some r) else find_base m ids)"

text \<open>Lines 317-321: the remote fetch by slug, inserted into the cache.\<close>

definition get_fetch_slug ::
  "string \<Rightarrow> flow_run \<Rightarrow> world \<Rightarrow> (exn + task_run) \<times> flow_run \<times> world" where
  "get_fetch_slug s fr w =
     (case from_task_slug s (flow_run_id fr) w of
        (Inl e, w') \<Rightarrow> (Inl e, fr, w')
      | (Inr result, w') \<Rightarrow> (Inr result, add_task_run result fr, w'))"

definition get ::
  "task option \<Rightarrow> string option \<Rightarrow> string option \<Rightarrow> flow_run \<Rightarrow> world \<Rightarrow>
   (exn + task_run) \<times> flow_run \<times> world" where
  "get tk tslug trid fr w =
     (case get_slug tk tslug of
        Inl e \<Rightarrow> (Inl e, fr, w)
      | Inr tslug' \<Rightarrow>
          (case trid of
             Some i \<Rightarrow>
               (case (case task_runs fr i of
                        Some r \<Rightarrow> (Inr r, w)
                      | None \<Rightarrow> from_task_run_id i w) of
                  (Inl e, w') \<Rightarrow> (Inl e, fr, w')
                | (Inr result, w') \<Rightarrow>
                    if tslug' \<noteq> None \<and> Some (task_slug result) \<noteq> tslug'
                    then (Inl (Exception ValueError
                                 ''task found using task_run_id has a different slug''), fr, w')
                    else (Inr result, add_task_run result fr, w'))
           | None \<Rightarrow>
               (case tslug' of
                  Some s \<Rightarrow>
                    (case priv_task_slug_to_task_run_ids fr s of
                       None \<Rightarrow> get_fetch_slug s fr w
                     | Some ids \<Rightarrow>
                         if 1 < length (remdups ids)
                         then (case find_base (task_runs fr) ids of
                                 Inl e \<Rightarrow> (Inl e, fr, w)
                               | Inr (Some result) \<Rightarrow> (Inr result, fr, w)
                               | Inr None \<Rightarrow> get_fetch_slug s fr w)
                         else get_fetch_slug s fr w)
                | None \<Rightarrow>
                    (Inl (Exception ValueError
                            ''one of task_run_id, task, or task_slug must be provided''),
                     fr, w))))"

subsection \<open>\<open>FlowRun.iter_mapped\<close>\<close>

text \<open>Lines 344-348: the \<open>where\<close> clause of a slug, this run and a map index.\<close>

definition where_mapped :: "string \<Rightarrow> string \<Rightarrow> int \<Rightarrow> where_clause" where
  "where_mapped s rid index =
     \<lparr>where_id = None, where_slug = Some s, where_flow_run_id = Some rid,
      where_map_index = Some index\<rparr>"

text \<open>Lines 333-342: the slug iterated, from \<open>task\<close> and \<open>task_slug\<close>.\<close>

definition iter_mapped_slug :: "task option \<Rightarrow> string option \<Rightarrow> exn + string" where
  "iter_mapped_slug tk tslug =
     (case tk of
        Some t \<Rightarrow>
          if tslug \<noteq> None \<and> tslug \<noteq> slug t
          then Inl (Exception ValueError ''both task and task_slug were provided but differ'')
          else (case slug t of
                  None \<Rightarrow> Inl (Exception ValueError ''either task or task_slug must be provided'')
                | Some s \<Rightarrow> Inr s)
      | None \<Rightarrow>
          (case tslug of
             None \<Rightarrow> Inl (Exception ValueError ''either task or task_slug must be provided'')
           | Some s \<Rightarrow> Inr s))"

lemma length_filter_stronger:
  assumes "x \<in> set xs" and "P x" and "\<not> Q x" and "\<And>y. Q y \<Longrightarrow> P y"
  shows "length (filter Q xs) < length (filter P xs)"
  using assms(1)
proof (induction xs)
  case Nil
  then show ?case by simp
next
  case (Cons a xs)
  have le: "length (filter Q xs) \<le> length (filter P xs)"
    using assms(4) by (induction xs) auto
  show ?case
  proof (cases "x = a")
    case True
    then show ?thesis using assms(2,3) le by simp
  next
    case False
    then have "x \<in> set xs" using Cons.prems by simp
    then have "length (filter Q xs) < length (filter P xs)" by (rule Cons.IH)
    then show ?thesis using assms(4) by auto
  qed
qed

lemma query_for_task_runs_found:
  assumes "query_for_task_runs wh many eoe w = (Inr (d # ds), w')"
  shows "\<exists>tbl. task_run_tbl w = Some tbl \<and> d \<in> set tbl \<and> matches wh d \<and>
           task_run_tbl w' = Some tbl"
proof -
  from assms obtain tbl where tbl: "task_run_tbl w = Some tbl"
    by (cases "task_run_tbl w") (auto simp: query_for_task_runs_def Let_def)
  from assms tbl obtain rest where "filter (matches wh) tbl = d # rest"
    by (auto simp: query_for_task_runs_def Let_def split: list.splits if_splits)
  then have "d \<in> set (filter (matches wh) tbl)"
    by simp
  moreover from assms tbl have "task_run_tbl w' = Some tbl"
    by (auto simp: query_for_task_runs_def Let_def record_call_def split: list.splits if_splits)
  ultimately show ?thesis using tbl by auto
qed

text \<open>
  Lines 358-374, the body of the generator run until it is exhausted, against a remote
  that does not change meanwhile: the records yielded in order, the exception that ended
  the iteration if one did, the run (its cache) and the world afterwards.
  \<open>while task_run:\<close> tests an object, which is always true.
\<close>

function iter_mapped_loop ::
  "string \<Rightarrow> bool \<Rightarrow> nat \<Rightarrow> flow_run \<Rightarrow> world \<Rightarrow>
   (task_run list \<times> exn option) \<times> flow_run \<times> world" where
  "iter_mapped_loop s cache_results k fr w =
     (case query_for_task_runs (where_mapped s (flow_run_id fr) (int k)) False False w of
        (Inl e, w') \<Rightarrow> (([], Some e), fr, w')
      | (Inr [], w') \<Rightarrow> (([], None), fr, w')
      | (Inr (d # ds), w') \<Rightarrow>
          (case iter_mapped_loop s cache_results (Suc k)
                  (if cache_results then add_task_run (from_task_run_data d) fr else fr) w' of
             ((ys, err), fr', w'') \<Rightarrow> ((from_task_run_data d # ys, err), fr', w'')))"
  by pat_completeness auto
termination
proof (relation "measure (\<lambda>(s, c, k, fr, w).
          case task_run_tbl w of None \<Rightarrow> 0
          | Some tbl \<Rightarrow> length (filter (\<lambda>t. int k \<le> map_index t) tbl))")
  show "wf (measure (\<lambda>(s, c, k, fr, w).
          case task_run_tbl w of None \<Rightarrow> 0
          | Some tbl \<Rightarrow> length (filter (\<lambda>t. int k \<le> map_index t) tbl)))"
    by simp
next
  fix s :: string and cache_results :: bool and k :: nat and fr :: flow_run and w :: world
    and x :: "exn + task_run list" and w' :: world and ys :: "task_run list"
    and d :: task_run and ds :: "task_run list"
  assume "(x, w') = query_for_task_runs (where_mapped s (flow_run_id fr) (int k)) False False w"
    and "x = Inr ys" and "ys = d # ds"
  then have q: "query_for_task_runs (where_mapped s (flow_run_id fr) (int k)) False False w
      = (Inr (d # ds), w')"
    by simp
  from query_for_task_runs_found [OF q] obtain tbl where
    tbl: "task_run_tbl w = Some tbl" "d \<in> set tbl" "task_run_tbl w' = Some tbl"
    and m: "matches (where_mapped s (flow_run_id fr) (int k)) d"
    by blast
  from m have idx: "map_index d = int k"
    by (simp add: matches_def where_mapped_def)
  have "length (filter (\<lambda>t. int (Suc k) \<le> map_index t) tbl)
      < length (filter (\<lambda>t. int k \<le> map_index t) tbl)"
    by (rule length_filter_stronger [OF tbl(2)]) (use idx in auto)
  then show "((s, cache_results, Suc k,
        if cache_results then add_task_run (from_task_run_data d) fr else fr, w'),
       s, cache_results, k, fr, w)
      \<in> measure (\<lambda>(s, c, k, fr, w).
          case task_run_tbl w of None \<Rightarrow> 0
          | Some tbl \<Rightarrow> length (filter (\<lambda>t. int k \<le> map_index t) tbl))"
    using tbl by simp
qed

declare iter_mapped_loop.simps [simp del]

text \<open>
  Lines 327-374. The base record is fetched with \<open>error_on_empty\<close> left on. The message
  of the \<open>TypeError\<close> reads \<open>task_run.slug\<close>.
\<close>

definition iter_mapped ::
  "task option \<Rightarrow> string option \<Rightarrow> bool \<Rightarrow> flow_run \<Rightarrow> world \<Rightarrow>
   (task_run list \<times> exn option) \<times> flow_run \<times> world" where
  "iter_mapped tk tslug cache_results fr w =
     (case iter_mapped_slug tk tslug of
        Inl e \<Rightarrow> (([], Some e), fr, w)
      | Inr s \<Rightarrow>
          (case query_for_task_runs (where_mapped s (flow_run_id fr) (- 1)) False True w of
             (Inl e, w') \<Rightarrow> (([], Some e), fr, w')
           | (Inr [], w') \<Rightarrow> (([], Some (Exception ValueError ''no task runs found'')), fr, w')
           | (Inr (d # ds), w') \<Rightarrow>
               if \<not> is_mapped (task_state (from_task_run_data d))
               then (case slug_attr (from_task_run_data d) of
                       None \<Rightarrow>
                         (([], Some (Exception AttributeError
                                      ''TaskRun object has no attribute slug'')), fr, w')
                     | Some sl \<Rightarrow>
                         (([], Some (Exception TypeError ''task run is not a mapped task'')),
                          fr, w'))
               else iter_mapped_loop s cache_results 0 fr w'))"

subsection \<open>\<open>FlowRun.task_run_ids\<close> and \<open>FlowRun.get_all\<close>\<close>

text \<open>
  Lines 397-434. A cached list is returned only when it is not empty (\<open>if
  self._task_run_ids\<close>). A remote answer without data is logged and then iterated, which
  raises \<open>TypeError\<close>.
\<close>

definition task_run_ids :: "flow_run \<Rightarrow> world \<Rightarrow> (exn + string list) \<times> flow_run \<times> world" where
  "task_run_ids fr w =
     (case priv_task_run_ids fr of
        Some (i # ids) \<Rightarrow> (Inr (i # ids), fr, w)
      | _ \<Rightarrow>
          (let w' = record_call (Graphql_task_run_ids (flow_run_id fr)) w in
           case task_run_tbl w of
             None \<Rightarrow> (Inl (Exception TypeError ''NoneType object is not iterable''), fr, w')
           | Some tbl \<Rightarrow>
               (let ids = map task_run_id
                            (filter (\<lambda>t. task_flow_run_id t = flow_run_id fr) tbl)
                in (Inr ids,
                    if is_finished (state fr) then fr\<lparr>priv_task_run_ids := Some ids\<rparr> else fr,
                    w'))))"

text \<open>Lines 376-395.\<close>

definition get_all :: "flow_run \<Rightarrow> world \<Rightarrow> (exn + task_run list) \<times> flow_run \<times> world" where
  "get_all fr w =
     (case task_run_ids fr w of
        (Inl e, fr', w') \<Rightarrow> (Inl e, fr', w')
      | (Inr ids, fr', w') \<Rightarrow>
          if 1000 < length ids
          then (Inl (Exception ValueError
                       ''Refusing to get_all for a flow with more than 1000 tasks''), fr', w')
          else (case query_for_task_runs
                       (where_any\<lparr>where_flow_run_id := Some (flow_run_id fr')\<rparr>) True True w' of
                  (Inl e, w'') \<Rightarrow> (Inl e, fr', w'')
                | (Inr data, w'') \<Rightarrow>
                    (Inr (map from_task_run_data data),
                     foldl (\<lambda>f t. add_task_run t f) fr' (map from_task_run_data data),
                     w'')))"

subsection \<open>\<open>FlowRun.from_flow_run_id\<close> and \<open>FlowRun.update\<close>\<close>

text \<open>
  A call \<open>cls(...)\<close> of the class with keyword arguments: \<open>None\<close> for a parameter the call
  does not pass. The parameters \<open>flow_run_id\<close>, \<open>name\<close>, \<open>flow_id\<close>, \<open>flow_name\<close>,
  \<open>flow_storage\<close>, \<open>flow_run_config\<close> and \<open>state\<close> of \<open>__init__\<close> (lines 122-132) have no
  default, so Python raises \<open>TypeError\<close> when one of them is missing; \<open>task_runs\<close> has one.
\<close>

definition FlowRun_call ::
  "string option \<Rightarrow> string option \<Rightarrow> string option \<Rightarrow> string option \<Rightarrow>
   storage option option \<Rightarrow> string option option \<Rightarrow> state option \<Rightarrow> task_run list option \<Rightarrow>
   exn + flow_run" where
  "FlowRun_call a_flow_run_id a_name a_flow_id a_flow_name a_flow_storage a_flow_run_config
     a_state a_task_runs =
     (case a_flow_run_id of None \<Rightarrow> Inl (Exception TypeError ''__init__() missing flow_run_id'')
      | Some rid \<Rightarrow>
     (case a_name of None \<Rightarrow> Inl (Exception TypeError ''__init__() missing name'')
      | Some nm \<Rightarrow>
     (case a_flow_id of None \<Rightarrow> Inl (Exception TypeError ''__init__() missing flow_id'')
      | Some fid \<Rightarrow>
     (case a_flow_name of None \<Rightarrow> Inl (Exception TypeError ''__init__() missing flow_name'')
      | Some fname \<Rightarrow>
     (case a_flow_storage of
        None \<Rightarrow> Inl (Exception TypeError ''__init__() missing flow_storage'')
      | Some fstorage \<Rightarrow>
     (case a_flow_run_config of
        None \<Rightarrow> Inl (Exception TypeError ''__init__() missing flow_run_config'')
      | Some config \<Rightarrow>
     (case a_state of None \<Rightarrow> Inl (Exception TypeError ''__init__() missing state'')
      | Some st \<Rightarrow>
          Inr (FlowRun_init rid nm fid fname fstorage config st a_task_runs))))))))"

text \<open>
  Lines 173-245. The query selects \<open>id\<close>, \<open>name\<close>, \<open>flow_id\<close>, the serialized state and the
  flow's storage, run config and name; an empty answer raises \<open>ValueError\<close>. With
  \<open>load_static_tasks\<close> the records of map index \<open>-1\<close> of the run are fetched
  (\<open>many=True\<close>). The call of the class at lines 235-245 passes \<open>flow_run_id\<close>,
  \<open>task_runs\<close>, \<open>state\<close>, \<open>flow_storage\<close>, \<open>flow_name\<close>, \<open>flow_run_config\<close> and \<open>name\<close>:
  it does not pass \<open>flow_id\<close>. Deserialization of the state and the storage (other
  modules) is taken to succeed: the rows hold the deserialized values.
\<close>

definition from_flow_run_id ::
  "string \<Rightarrow> bool \<Rightarrow> task_run list option \<Rightarrow> world \<Rightarrow> (exn + flow_run) \<times> world" where
  "from_flow_run_id rid load_static_tasks extra w =
     (let w1 = record_call (Graphql_flow_run_by_pk rid) w in
      case flow_run_tbl w rid of
        None \<Rightarrow> (Inl (Exception ValueError ''bad result while querying for flow run''), w1)
      | Some d \<Rightarrow>
          (case (if load_static_tasks
                 then (case query_for_task_runs
                              (where_any\<lparr>where_map_index := Some (- 1),
                                 where_flow_run_id := Some rid\<rparr>) True True w1 of
                         (Inl e, w2) \<Rightarrow> (Inl e, w2)
                       | (Inr data, w2) \<Rightarrow> (Inr (map from_task_run_data data), w2))
                 else (Inr [], w1)) of
             (Inl e, w2) \<Rightarrow> (Inl e, w2)
           | (Inr trs, w2) \<Rightarrow>
               (FlowRun_call (Some rid) (Some (data_name d)) None (Some (data_flow_name d))
                  (Some (data_storage d)) (Some (data_run_config d)) (Some (data_state d))
                  (Some (trs @ (case extra of None \<Rightarrow> [] | Some ts \<Rightarrow> ts))),
                w2)))"

text \<open>Lines 159-167; \<open>self._task_runs.values()\<close> are the records in insertion order.\<close>

definition update :: "flow_run \<Rightarrow> world \<Rightarrow> (exn + flow_run) \<times> world" where
  "update fr w = from_flow_run_id (flow_run_id fr) False (Some (map snd (priv_task_runs fr))) w"

section \<open>The execution guard and \<open>execute_flow_run\<close>\<close>

text \<open>
  Modelled from the spec: \<open>Client.set_flow_run_state\<close> and \<open>Client.write_run_logs\<close> are not
  part of the sources; the spec lists a state-transition write (run id, new state) and a
  logging sink that appends run-log entries.
\<close>

definition set_flow_run_state :: "string \<Rightarrow> state \<Rightarrow> world \<Rightarrow> world" where
  "set_flow_run_state rid st w =
     record_call (Set_flow_run_state rid st)
       (case flow_run_tbl w rid of
          None \<Rightarrow> w
        | Some d \<Rightarrow> w\<lparr>flow_run_tbl := (flow_run_tbl w)(rid \<mapsto> d\<lparr>data_state := st\<rparr>)\<rparr>)"

definition write_run_logs :: "log_entry list \<Rightarrow> world \<Rightarrow> world" where
  "write_run_logs entries w =
     record_call (Write_run_logs entries) (w\<lparr>run_logs := run_logs w @ entries\<rparr>)"

text \<open>
  The collaborators whose code is elsewhere are parameters: Python's \<open>str.format\<close> with the
  keyword \<open>exc\<close> (it raises on a template it cannot fill) and \<open>repr\<close> of a string, the
  secrets provider (\<open>PrefectSecret(name).run()\<close>), the storage's \<open>get_flow\<close> (called under
  a context carrying the secrets), the flow runner's \<open>run\<close>, and the environment's \<open>setup\<close>
  and \<open>execute\<close>. Each act on the world and may raise.
\<close>

record collaborators =
  str_format :: "string \<Rightarrow> string \<Rightarrow> exn + string"
  str_repr :: "string \<Rightarrow> string"
  secret_run :: "string \<Rightarrow> world \<Rightarrow> (exn + pyval) \<times> world"
  get_flow :: "storage \<Rightarrow> string \<Rightarrow> secrets_map \<Rightarrow> world \<Rightarrow> (exn + flow) \<times> world"
  runner_run :: "string \<Rightarrow> flow \<Rightarrow> run_kwargs \<Rightarrow> world \<Rightarrow> (exn + state) \<times> world"
  environment_setup :: "string \<Rightarrow> flow \<Rightarrow> world \<Rightarrow> (exn + unit) \<times> world"
  environment_execute :: "string \<Rightarrow> flow \<Rightarrow> world \<Rightarrow> (exn + unit) \<times> world"

text \<open>Line 90: \<open>message or "Flow run failed with {exc}"\<close>.\<close>

definition message_or_default :: "string option \<Rightarrow> string" where
  "message_or_default message =
     (case message of
        None \<Rightarrow> ''Flow run failed with {exc}''
      | Some m \<Rightarrow> if m = [] then ''Flow run failed with {exc}'' else m)"

text \<open>
  Lines 97-101 and 104-118: what the two handlers do once the re-read of the run has
  told whether it is running. The message is the template with \<open>exc.__repr__()\<close> filled
  in; the state write comes first, then one log entry of level \<open>ERROR\<close>.
\<close>

definition cancel_if_running :: "string \<Rightarrow> bool \<Rightarrow> world \<Rightarrow> (exn + 'a) \<times> world" where
  "cancel_if_running rid running w =
     (if running
      then (Inl KeyboardInterrupt,
            set_flow_run_state rid (Cancelled ''Keyboard interrupt.'') w)
      else (Inl KeyboardInterrupt, w))"

definition fail_if_running ::
  "collaborators \<Rightarrow> string \<Rightarrow> string option \<Rightarrow> exc_class \<Rightarrow> string \<Rightarrow> bool \<Rightarrow> world \<Rightarrow>
   (exn + 'a) \<times> world" where
  "fail_if_running C rid message cls rp running w =
     (if running
      then (case str_format C (message_or_default message) rp of
              Inl e \<Rightarrow> (Inl e, w)
            | Inr msg \<Rightarrow>
                (Inl (Exception cls rp),
                 write_run_logs
                   [\<lparr>log_flow_run_id = rid,
                     log_name = ''prefect.backend.api.flow_run.execute_flow_run'',
                     log_message = msg, log_level = ''ERROR''\<rparr>]
                   (set_flow_run_state rid (Failed msg) w)))
      else (Inl (Exception cls rp), w))"

text \<open>
  Lines 88-118, the context manager around a unit of work \<open>body\<close>. \<open>except Exception\<close>
  does not catch \<open>SystemExit\<close>. Each handler starts with
  \<open>FlowRun.from_flow_run_id(flow_run_id).state.is_running()\<close>; an exception raised inside
  a handler (by that re-read of the run, or by \<open>format\<close>) replaces the one being handled.
\<close>

definition fail_flow_run_on_exception ::
  "collaborators \<Rightarrow> string \<Rightarrow> string option \<Rightarrow> (world \<Rightarrow> (exn + 'a) \<times> world) \<Rightarrow> world \<Rightarrow>
   (exn + 'a) \<times> world" where
  "fail_flow_run_on_exception C rid message body w =
     (case body w of
        (Inr v, w1) \<Rightarrow> (Inr v, w1)
      | (Inl KeyboardInterrupt, w1) \<Rightarrow>
          (case from_flow_run_id rid True None w1 of
             (Inl e, w2) \<Rightarrow> (Inl e, w2)
           | (Inr fr, w2) \<Rightarrow> cancel_if_running rid (is_running (state fr)) w2)
      | (Inl SystemExit, w1) \<Rightarrow> (Inl SystemExit, w1)
      | (Inl (Exception cls rp), w1) \<Rightarrow>
          (case from_flow_run_id rid True None w1 of
             (Inl e, w2) \<Rightarrow> (Inl e, w2)
           | (Inr fr, w2) \<Rightarrow> fail_if_running C rid message cls rp (is_running (state fr)) w2))"

text \<open>
  Lines 36-44: the secrets of the storage are resolved one by one, each under the guard,
  into \<open>secrets\<close>. When the ambient context has an entry \<open>secrets\<close>, \<open>secrets\<close> is that
  very dict and the assignment changes it in place (\<open>aliased\<close>).
\<close>

fun load_secrets ::
  "collaborators \<Rightarrow> string \<Rightarrow> bool \<Rightarrow> string list \<Rightarrow> secrets_map \<Rightarrow> world \<Rightarrow>
   (exn + secrets_map) \<times> world" where
  "load_secrets C rid aliased [] sec w = (Inr sec, w)"
| "load_secrets C rid aliased (secret # rest) sec w =
     (case fail_flow_run_on_exception C rid
             (Some (''Failed to load flow secret '' @ str_repr C secret @ '': {exc}''))
             (\<lambda>w0. secret_run C secret (record_call (Secret_run secret) w0)) w of
        (Inl e, w') \<Rightarrow> (Inl e, w')
      | (Inr v, w') \<Rightarrow>
          load_secrets C rid aliased rest (sec(secret \<mapsto> v))
            (if aliased then w'\<lparr>context_secrets := Some (sec(secret \<mapsto> v))\<rparr> else w'))"

text \<open>
  Lines 56-66. \<open>copy.deepcopy(kwargs)\<close> is a value equal to \<open>kwargs\<close>; the assignments
  that follow are made to the copy. Line 58 stores the caller's context, or \<open>{}\<close> when
  the key is absent. In the assignment of lines 59-64 Python evaluates the right-hand side
  first: \<open>run_kwargs["context"].get\<close> raises \<open>AttributeError\<close> on a context that is
  \<open>None\<close>, and unpacking \<open>**None\<close> raises \<open>TypeError\<close> when the context's entry
  \<open>secrets\<close> is \<open>None\<close>. Otherwise the secrets of the caller's context override
  \<open>secrets\<close>. \<open>setdefault\<close> (line 66) sets the executor to the flow's only when the key
  is absent: an explicit \<open>None\<close> stays.
\<close>

definition merge_secrets ::
  "secrets_map \<Rightarrow> flow \<Rightarrow> run_kwargs \<Rightarrow> run_context \<Rightarrow> exn + run_kwargs" where
  "merge_secrets sec f kwargs ctx =
     (case ctx_secrets ctx of
        PyNone \<Rightarrow> Inl (Exception TypeError ''NoneType object is not a mapping'')
      | Absent \<Rightarrow>
          Inr (kwargs
                \<lparr>kw_context := Given (ctx\<lparr>ctx_secrets := Given (sec ++ Map.empty)\<rparr>),
                 kw_executor :=
                   (case kw_executor kwargs of Absent \<Rightarrow> Given (executor f) | e \<Rightarrow> e)\<rparr>)
      | Given s \<Rightarrow>
          Inr (kwargs
                \<lparr>kw_context := Given (ctx\<lparr>ctx_secrets := Given (sec ++ s)\<rparr>),
                 kw_executor :=
                   (case kw_executor kwargs of Absent \<Rightarrow> Given (executor f) | e \<Rightarrow> e)\<rparr>))"

definition merge_run_kwargs :: "secrets_map \<Rightarrow> flow \<Rightarrow> run_kwargs \<Rightarrow> exn + run_kwargs" where
  "merge_run_kwargs sec f kwargs =
     (case kw_context kwargs of
        Absent \<Rightarrow> merge_secrets sec f kwargs \<lparr>ctx_secrets = Absent, ctx_other = []\<rparr>
      | PyNone \<Rightarrow> Inl (Exception AttributeError ''NoneType object has no attribute get'')
      | Given ctx \<Rightarrow> merge_secrets sec f kwargs ctx)"

text \<open>
  Lines 75-82, the unit of work of the execution stage. Its value is the binding of the
  local variable \<open>flow_state\<close> afterwards: only the branch of a run with a run config
  assigns it.
\<close>

definition execute_stage ::
  "collaborators \<Rightarrow> string \<Rightarrow> flow \<Rightarrow> run_kwargs \<Rightarrow> flow_run \<Rightarrow> world \<Rightarrow>
   (exn + state option) \<times> world" where
  "execute_stage C runner f kw flow_run w =
     (case flow_run_config flow_run of
        Some config \<Rightarrow>
          (case runner_run C runner f kw (record_call (Runner_run runner f kw) w) of
             (Inl e, w') \<Rightarrow> (Inl e, w')
           | (Inr flow_state, w') \<Rightarrow> (Inr (Some flow_state), w'))
      | None \<Rightarrow>
          (case environment_setup C (environment f) f
                  (record_call (Environment_setup (environment f) f) w) of
             (Inl e, w') \<Rightarrow> (Inl e, w')
           | (Inr u, w') \<Rightarrow>
               (case environment_execute C (environment f) f
                       (record_call (Environment_execute (environment f) f) w') of
                  (Inl e, w'') \<Rightarrow> (Inl e, w'')
                | (Inr u', w'') \<Rightarrow> (Inr None, w''))))"

text \<open>
  Lines 31-85, what \<open>execute_flow_run\<close> does once it holds the \<open>FlowRun\<close> object of line
  29. Line 84 reads \<open>flow_state\<close>, which raises \<open>UnboundLocalError\<close> when the variable
  was never assigned. Without a flow and without a storage, \<open>flow_run.flow_storage.get_flow\<close>
  raises \<open>AttributeError\<close> inside the guard.
\<close>

definition execute_flow_run_body ::
  "collaborators \<Rightarrow> string \<Rightarrow> flow option \<Rightarrow> string \<Rightarrow> run_kwargs \<Rightarrow> flow_run \<Rightarrow> world \<Rightarrow>
   (exn + flow_run) \<times> world" where
  "execute_flow_run_body C rid fl runner kwargs flow_run w =
     (if is_running (state flow_run)
      then (Inl (Exception RuntimeError ''flow run is already in a running state''), w)
      else
        (case (case flow_storage flow_run of
                 None \<Rightarrow> (Inr (case context_secrets w of None \<Rightarrow> Map.empty | Some s \<Rightarrow> s), w)
               | Some st \<Rightarrow>
                   load_secrets C rid (context_secrets w \<noteq> None) (secrets st)
                     (case context_secrets w of None \<Rightarrow> Map.empty | Some s \<Rightarrow> s) w) of
           (Inl e, w1) \<Rightarrow> (Inl e, w1)
         | (Inr sec, w1) \<Rightarrow>
             (case (case fl of
                      Some f \<Rightarrow> (Inr f, w1)
                    | None \<Rightarrow>
                        fail_flow_run_on_exception C rid
                          (Some ''Failed to load flow from storage: {exc}'')
                          (\<lambda>w0. case flow_storage flow_run of
                                   None \<Rightarrow>
                                     (Inl (Exception AttributeError
                                             ''NoneType object has no attribute get_flow''), w0)
                                 | Some st \<Rightarrow>
                                     get_flow C st (flow_name flow_run) sec
                                       (record_call
                                          (Get_flow (storage_ref st) (flow_name flow_run)) w0))
                          w1) of
                (Inl e, w2) \<Rightarrow> (Inl e, w2)
              | (Inr f, w2) \<Rightarrow>
                  (case merge_run_kwargs sec f kwargs of
                     Inl e \<Rightarrow> (Inl e, w2)
                   | Inr run_kw \<Rightarrow>
                       (case fail_flow_run_on_exception C rid
                               (Some ''Failed to execute flow: {exc}'')
                               (execute_stage C runner f run_kw flow_run) w2 of
                          (Inl e, w3) \<Rightarrow> (Inl e, w3)
                        | (Inr None, w3) \<Rightarrow>
                            (Inl (Exception UnboundLocalError
                                    ''local variable flow_state referenced before assignment''),
                             w3)
                        | (Inr (Some flow_state), w3) \<Rightarrow> update flow_run w3)))))"

text \<open>Lines 19-85; the runner class defaults to \<open>CloudFlowRunner\<close>.\<close>

definition execute_flow_run ::
  "collaborators \<Rightarrow> string \<Rightarrow> flow option \<Rightarrow> string option \<Rightarrow> run_kwargs \<Rightarrow> world \<Rightarrow>
   (exn + flow_run) \<times> world" where
  "execute_flow_run C rid fl runner_cls kwargs w =
     (case from_flow_run_id rid True None w of
        (Inl e, w') \<Rightarrow> (Inl e, w')
      | (Inr flow_run, w') \<Rightarrow>
          execute_flow_run_body C rid fl
            (case runner_cls of None \<Rightarrow> ''CloudFlowRunner'' | Some c \<Rightarrow> c) kwargs flow_run w')"

section \<open>Example data\<close>

text \<open>
  A mapped family of the slug \<open>x\<close> in the run \<open>r1\<close>: the base record \<open>i1\<close> (map index
  \<open>-1\<close>) and the child \<open>i2\<close> (map index \<open>0\<close>); a run object holding both, built by the
  constructor; and a remote store holding the same rows.
\<close>

definition example_base :: task_run where
  "example_base =
     \<lparr>task_run_id = ''i1'', task_slug = ''x'', map_index = - 1, task_state = Mapped,
      task_flow_run_id = ''r1'', slug_attr = None\<rparr>"

definition example_child :: task_run where
  "example_child =
     \<lparr>task_run_id = ''i2'', task_slug = ''x'', map_index = 0, task_state = Success,
      task_flow_run_id = ''r1'', slug_attr = None\<rparr>"

definition example_run :: "task_run list \<Rightarrow> flow_run" where
  "example_run trs =
     FlowRun_init ''r1'' ''run'' ''f1'' ''flow'' None (Some ''config'') Running (Some trs)"

definition example_world :: "task_run list \<Rightarrow> world" where
  "example_world tbl =
     \<lparr>flow_run_tbl = Map.empty, task_run_tbl = Some tbl, run_logs = [],
      context_secrets = None, calls = []\<rparr>"

definition example_child2 :: task_run where
  "example_child2 =
     \<lparr>task_run_id = ''i3'', task_slug = ''x'', map_index = 1, task_state = Success,
      task_flow_run_id = ''r1'', slug_attr = None\<rparr>"

definition example_unmapped :: task_run where
  "example_unmapped =
     \<lparr>task_run_id = ''i1'', task_slug = ''x'', map_index = - 1, task_state = Running,
      task_flow_run_id = ''r1'', slug_attr = None\<rparr>"

definition example_child4 :: task_run where
  "example_child4 =
     \<lparr>task_run_id = ''i5'', task_slug = ''x'', map_index = 3, task_state = Success,
      task_flow_run_id = ''r1'', slug_attr = None\<rparr>"

definition example_many :: "task_run list" where
  "example_many =
     map (\<lambda>n. example_child\<lparr>task_run_id := replicate n (CHR ''a'')\<rparr>) [0..<1001]"

text \<open>
  A remote store for the run \<open>r1\<close>, collaborators that succeed, the caller's options of
  the spec's merge scenario, and a run object built by the constructor. \<open>format_exc\<close> is
  \<open>str.format\<close> on templates whose only braces are the field \<open>{exc}\<close>.
\<close>

definition example_flow :: flow where
  "example_flow =
     \<lparr>flow_label = ''flow'', executor = ''LocalExecutor'', environment = ''LocalEnvironment''\<rparr>"

definition example_storage :: storage where
  "example_storage = \<lparr>storage_ref = ''local'', secrets = [''B'']\<rparr>"

definition example_remote :: "state \<Rightarrow> string option \<Rightarrow> world" where
  "example_remote st config =
     \<lparr>flow_run_tbl =
        [''r1'' \<mapsto> \<lparr>data_name = ''run'', data_flow_id = ''f1'', data_state = st,
                     data_storage = Some example_storage, data_run_config = config,
                     data_flow_name = ''flow''\<rparr>],
      task_run_tbl = Some [example_base], run_logs = [],
      context_secrets = Some [''A'' \<mapsto> IntV 1], calls = []\<rparr>"

function format_exc :: "string \<Rightarrow> string \<Rightarrow> string" where
  "format_exc t r =
     (case t of
        [] \<Rightarrow> []
      | c # cs \<Rightarrow>
          if take 5 (c # cs) = ''{exc}'' then r @ format_exc (drop 4 cs) r
          else c # format_exc cs r)"
  by pat_completeness auto
termination
  by (relation "measure (\<lambda>(t, r). length t)") auto

declare format_exc.simps [simp del]

definition example_collaborators :: collaborators where
  "example_collaborators =
     \<lparr>str_format = (\<lambda>template r. Inr (format_exc template r)),
      str_repr = (\<lambda>s. s),
      secret_run = (\<lambda>n w. case [''B'' \<mapsto> IntV 2] n of
                             None \<Rightarrow> (Inl (Exception ValueError ''secret not found''), w)
                           | Some v \<Rightarrow> (Inr v, w)),
      get_flow = (\<lambda>st n sec w. (Inr example_flow, w)),
      runner_run = (\<lambda>cls f kw w. (Inr Success, w)),
      environment_setup = (\<lambda>e f w. (Inr (), w)),
      environment_execute = (\<lambda>e f w. (Inr (), w))\<rparr>"

definition example_kwargs :: run_kwargs where
  "example_kwargs =
     \<lparr>kw_context = Given \<lparr>ctx_secrets = Given [''B'' \<mapsto> IntV 3, ''C'' \<mapsto> IntV 4],
                           ctx_other = []\<rparr>,
      kw_executor = Absent, kw_other = []\<rparr>"

definition example_flow_run :: "string option \<Rightarrow> flow_run" where
  "example_flow_run config =
     FlowRun_init ''r1'' ''run'' ''f1'' ''flow'' (Some example_storage) config Scheduled
       (Some [example_base])"

section \<open>The cache\<close>

definition ids_for_slug :: "flow_run \<Rightarrow> string \<Rightarrow> string list" where
  "ids_for_slug fr s =
     (case priv_task_slug_to_task_run_ids fr s of None \<Rightarrow> [] | Some ids \<Rightarrow> ids)"

text \<open>
  The two-level index is coherent when every record is stored under its own id, that id
  is in the id set of the record's slug, and every id of an id set is a key of the
  id-to-record dict.
\<close>

definition coherent :: "flow_run \<Rightarrow> bool" where
  "coherent fr =
     ((\<forall>i r. task_runs fr i = Some r \<longrightarrow>
         task_run_id r = i \<and> i \<in> set (ids_for_slug fr (task_slug r))) \<and>
      (\<forall>s i. i \<in> set (ids_for_slug fr s) \<longrightarrow> i \<in> dom (task_runs fr)))"




definition store_rows :: "world \<Rightarrow> task_run list" where
  "store_rows w = (case task_run_tbl w of None \<Rightarrow> [] | Some tbl \<Rightarrow> tbl)"


lemma set_set_add: "set (set_add x xs) = insert x (set xs)"
  by (auto simp: set_add_def)

lemma task_runs_add_task_run:
  "task_runs (add_task_run tr fr) = (task_runs fr)(task_run_id tr \<mapsto> tr)"
  by (simp add: task_runs_def add_task_run_def update_conv')

lemma ids_for_slug_add_task_run:
  "ids_for_slug (add_task_run tr fr) s =
     (if s = task_slug tr then set_add (task_run_id tr) (ids_for_slug fr s)
      else ids_for_slug fr s)"
  by (simp add: add_task_run_def ids_for_slug_def)

lemma add_task_run_fields [simp]:
  "flow_run_id (add_task_run tr fr) = flow_run_id fr"
  "state (add_task_run tr fr) = state fr"
  "priv_task_run_ids (add_task_run tr fr) = priv_task_run_ids fr"
  by (simp_all add: add_task_run_def)

subsection \<open>What every operation preserves\<close>

text \<open>
  The operations change the cache only through \<open>_add_task_run\<close> and the cached id list:
  a property of the run that both keep is kept by \<open>get\<close>, \<open>iter_mapped\<close> and \<open>get_all\<close>,
  whatever they return.
\<close>

lemma foldl_add_preserves:
  assumes "\<And>t f. P f \<Longrightarrow> P (add_task_run t f)"
  shows "P fr \<Longrightarrow> P (foldl (\<lambda>f t. add_task_run t f) fr trs)"
  by (induction trs arbitrary: fr) (simp_all add: assms)

lemma get_fetch_slug_preserves:
  assumes "\<And>t f. P f \<Longrightarrow> P (add_task_run t f)"
  shows "P fr \<Longrightarrow> P (fst (snd (get_fetch_slug s fr w)))"
  by (auto simp: get_fetch_slug_def assms split: prod.splits sum.splits)

lemma get_preserves:
  assumes "\<And>t f. P f \<Longrightarrow> P (add_task_run t f)"
  shows "P fr \<Longrightarrow> P (fst (snd (get tk tslug trid fr w)))"
  using get_fetch_slug_preserves [of P, OF assms]
  by (auto simp: get_def assms split: prod.splits sum.splits option.splits)

lemma iter_mapped_loop_preserves:
  assumes add: "\<And>t f. P f \<Longrightarrow> P (add_task_run t f)"
  shows "P fr \<Longrightarrow> P (fst (snd (iter_mapped_loop s c k fr w)))"
proof (induction s c k fr w rule: iter_mapped_loop.induct)
  case (1 s c k fr w)
  show ?case
  proof (cases "query_for_task_runs (where_mapped s (flow_run_id fr) (int k)) False False w")
    case (Pair x w')
    show ?thesis
    proof (cases x)
      case (Inl e)
      with Pair "1.prems" show ?thesis
        by (subst iter_mapped_loop.simps) simp
    next
      case (Inr ys)
      show ?thesis
      proof (cases ys)
        case Nil
        with Pair Inr "1.prems" show ?thesis
          by (subst iter_mapped_loop.simps) simp
      next
        case (Cons d ds)
        have "P (if c then add_task_run (from_task_run_data d) fr else fr)"
          using "1.prems" by (simp add: add)
        then have "P (fst (snd (iter_mapped_loop s c (Suc k)
            (if c then add_task_run (from_task_run_data d) fr else fr) w')))"
          using "1.IH" [OF Pair [symmetric] Inr Cons] by simp
        with Pair Inr Cons show ?thesis
          by (subst iter_mapped_loop.simps) (simp add: case_prod_beta)
      qed
    qed
  qed
qed

lemma iter_mapped_preserves:
  assumes "\<And>t f. P f \<Longrightarrow> P (add_task_run t f)"
  shows "P fr \<Longrightarrow> P (fst (snd (iter_mapped tk tslug c fr w)))"
  using iter_mapped_loop_preserves [of P, OF assms]
  by (auto simp: iter_mapped_def split: prod.splits sum.splits option.splits list.splits)

lemma task_run_ids_preserves:
  assumes "\<And>f ids. P f \<Longrightarrow> P (f\<lparr>priv_task_run_ids := ids\<rparr>)"
  shows "P fr \<Longrightarrow> P (fst (snd (task_run_ids fr w)))"
  by (auto simp: task_run_ids_def Let_def assms split: option.splits list.splits)

lemma get_all_preserves:
  assumes "\<And>t f. P f \<Longrightarrow> P (add_task_run t f)"
    and "\<And>f ids. P f \<Longrightarrow> P (f\<lparr>priv_task_run_ids := ids\<rparr>)"
  shows "P fr \<Longrightarrow> P (fst (snd (get_all fr w)))"
  using task_run_ids_preserves [of P fr w, OF assms(2)]
    foldl_add_preserves [of P, OF assms(1)]
  by (auto simp: get_all_def split: prod.splits sum.splits)

subsection \<open>Coherence of the two-level index\<close>

lemma coherent_add_task_run:
  assumes "coherent fr"
  shows "coherent (add_task_run tr fr)"
proof -
  from assms have a: "\<And>i r. task_runs fr i = Some r \<Longrightarrow>
      task_run_id r = i \<and> i \<in> set (ids_for_slug fr (task_slug r))"
    and b: "\<And>s i. i \<in> set (ids_for_slug fr s) \<Longrightarrow> i \<in> dom (task_runs fr)"
    unfolding coherent_def by blast+
  have "task_run_id r = i \<and> i \<in> set (ids_for_slug (add_task_run tr fr) (task_slug r))"
    if "task_runs (add_task_run tr fr) i = Some r" for i r
  proof (cases "i = task_run_id tr")
    case True
    with that have "r = tr" by (simp add: task_runs_add_task_run)
    with True show ?thesis by (simp add: ids_for_slug_add_task_run set_set_add)
  next
    case False
    with that have "task_runs fr i = Some r" by (simp add: task_runs_add_task_run)
    from a [OF this] show ?thesis by (auto simp: ids_for_slug_add_task_run set_set_add)
  qed
  moreover have "i \<in> dom (task_runs (add_task_run tr fr))"
    if "i \<in> set (ids_for_slug (add_task_run tr fr) s)" for s i
  proof (cases "i = task_run_id tr")
    case True
    then show ?thesis by (simp add: task_runs_add_task_run)
  next
    case False
    with that have "i \<in> set (ids_for_slug fr s)"
      by (simp add: ids_for_slug_add_task_run set_set_add split: if_splits)
    from b [OF this] show ?thesis by (auto simp: task_runs_add_task_run)
  qed
  ultimately show ?thesis unfolding coherent_def by blast
qed


lemma coherent_FlowRun_init:
  "coherent (FlowRun_init rid nm fid fname fstorage config st trs)"
  unfolding FlowRun_init_def
  by (rule foldl_add_preserves [of coherent, OF coherent_add_task_run])
     (simp_all add: coherent_def task_runs_def ids_for_slug_def)

subsection \<open>Lookups\<close>

lemma find_base_found:
  assumes "set ids \<subseteq> dom m"
    and "\<exists>i\<in>set ids. \<exists>r. m i = Some r \<and> map_index r = - 1"
  shows "\<exists>i\<in>set ids. \<exists>r. m i = Some r \<and> map_index r = - 1 \<and> find_base m ids = Inr (Some r)"
  using assms
proof (induction ids)
  case Nil
  then show ?case by simp
next
  case (Cons a ids)
  from Cons.prems(1) obtain ra where ra: "m a = Some ra" by auto
  show ?case
  proof (cases "map_index ra = - 1")
    case True
    with ra show ?thesis by auto
  next
    case False
    with ra Cons.prems have "\<exists>i\<in>set ids. \<exists>r. m i = Some r \<and> map_index r = - 1" by auto
    with Cons.IH Cons.prems(1) have
      "\<exists>i\<in>set ids. \<exists>r. m i = Some r \<and> map_index r = - 1 \<and> find_base m ids = Inr (Some r)"
      by simp
    with ra False show ?thesis by auto
  qed
qed

lemma find_base_none:
  assumes "set ids \<subseteq> dom m"
    and "\<forall>i\<in>set ids. \<forall>r. m i = Some r \<longrightarrow> map_index r \<noteq> - 1"
  shows "find_base m ids = Inr None"
  using assms by (induction ids) (auto split: option.splits)

lemma query_for_task_runs_world:
  "snd (query_for_task_runs wh many eoe w) = record_call (Query_task_runs wh) w"
  by (simp add: query_for_task_runs_def Let_def split: option.splits list.splits)

lemma from_task_slug_world:
  "snd (from_task_slug s rid w) =
     record_call (Query_task_runs (where_any\<lparr>where_slug := Some s, where_flow_run_id := Some rid,
        where_map_index := Some (- 1)\<rparr>)) w"
  using query_for_task_runs_world [of "where_any\<lparr>where_slug := Some s, where_flow_run_id := Some rid,
        where_map_index := Some (- 1)\<rparr>" False True w]
  by (auto simp: from_task_slug_def split: prod.splits sum.splits list.splits)

lemma get_fetch_slug_world:
  "snd (snd (get_fetch_slug s fr w)) =
     record_call (Query_task_runs
       (where_any\<lparr>where_slug := Some s, where_flow_run_id := Some (flow_run_id fr),
                  where_map_index := Some (- 1)\<rparr>)) w"
  using from_task_slug_world [of s "flow_run_id fr" w]
  by (auto simp: get_fetch_slug_def split: prod.splits sum.splits)

text \<open>
  C8. A lookup by slug (given directly or derived from the task) on a run whose cache
  holds at least two ids for the slug, all of them cached: when one of the cached records
  of the slug has map index \<open>-1\<close>, \<open>get\<close> returns such a cached record and leaves the run
  and the world as they are (no remote call); when none has, \<open>get\<close> is the remote fetch by
  slug, which records exactly one query. The order in which the ids are iterated is any.
\<close>

theorem get_by_slug_mapped_family:
  assumes "get_slug tk tslug = Inr (Some s)"
    and "priv_task_slug_to_task_run_ids fr s = Some ids"
    and "1 < length (remdups ids)"
    and "set ids \<subseteq> dom (task_runs fr)"
  shows "((\<exists>i\<in>set ids. \<exists>r. task_runs fr i = Some r \<and> map_index r = - 1) \<longrightarrow>
            (\<exists>i\<in>set ids. \<exists>r. task_runs fr i = Some r \<and> map_index r = - 1 \<and>
               get tk tslug None fr w = (Inr r, fr, w))) \<and>
         ((\<forall>i\<in>set ids. \<forall>r. task_runs fr i = Some r \<longrightarrow> map_index r \<noteq> - 1) \<longrightarrow>
            get tk tslug None fr w = get_fetch_slug s fr w \<and>
            snd (snd (get tk tslug None fr w)) =
              record_call (Query_task_runs
                (where_any\<lparr>where_slug := Some s, where_flow_run_id := Some (flow_run_id fr),
                  where_map_index := Some (- 1)\<rparr>)) w)"
proof (intro conjI impI)
  assume "\<exists>i\<in>set ids. \<exists>r. task_runs fr i = Some r \<and> map_index r = - 1"
  from find_base_found [OF assms(4) this] obtain i r where
    "i \<in> set ids" "task_runs fr i = Some r" "map_index r = - 1"
    "find_base (task_runs fr) ids = Inr (Some r)" by blast
  moreover from this assms(1,2,3) have "get tk tslug None fr w = (Inr r, fr, w)"
    by (simp add: get_def)
  ultimately show "\<exists>i\<in>set ids. \<exists>r. task_runs fr i = Some r \<and> map_index r = - 1 \<and>
               get tk tslug None fr w = (Inr r, fr, w)" by blast
next
  assume "\<forall>i\<in>set ids. \<forall>r. task_runs fr i = Some r \<longrightarrow> map_index r \<noteq> - 1"
  from find_base_none [OF assms(4) this] assms(1,2,3)
  show g: "get tk tslug None fr w = get_fetch_slug s fr w"
    by (simp add: get_def)
  show "snd (snd (get tk tslug None fr w)) =
              record_call (Query_task_runs
                (where_any\<lparr>where_slug := Some s, where_flow_run_id := Some (flow_run_id fr),
                  where_map_index := Some (- 1)\<rparr>)) w"
    by (simp add: g get_fetch_slug_world)
qed

lemma update_same: "map_of al k = Some v \<Longrightarrow> AList.update k v al = al"
  by (induction al) auto

lemma set_add_member: "x \<in> set xs \<Longrightarrow> set_add x xs = xs"
  by (simp add: set_add_def)

lemma add_task_run_cached:
  assumes "coherent fr" and "task_runs fr i = Some r"
  shows "add_task_run r fr = fr"
proof -
  from assms have id: "task_run_id r = i" and mem: "i \<in> set (ids_for_slug fr (task_slug r))"
    unfolding coherent_def by blast+
  from mem obtain ids where ids: "priv_task_slug_to_task_run_ids fr (task_slug r) = Some ids"
    "i \<in> set ids"
    by (cases "priv_task_slug_to_task_run_ids fr (task_slug r)") (auto simp: ids_for_slug_def)
  have "AList.update (task_run_id r) r (priv_task_runs fr) = priv_task_runs fr"
    using assms(2) id by (simp add: update_same task_runs_def)
  moreover have "(priv_task_slug_to_task_run_ids fr)(task_slug r \<mapsto>
      set_add (task_run_id r)
        (case priv_task_slug_to_task_run_ids fr (task_slug r) of None \<Rightarrow> [] | Some ids \<Rightarrow> ids))
      = priv_task_slug_to_task_run_ids fr"
    using ids id by (simp add: set_add_member map_upd_triv)
  ultimately show ?thesis by (simp add: add_task_run_def)
qed

lemma from_task_run_id_id:
  assumes "from_task_run_id j w = (Inr t, w')"
  shows "task_run_id t = j"
proof -
  from assms obtain d ds w'' where
    q: "query_for_task_runs (where_any\<lparr>where_id := Some j\<rparr>) False True w = (Inr (d # ds), w'')"
    and t: "t = from_task_run_data d"
    by (auto simp: from_task_run_id_def split: prod.splits sum.splits list.splits)
  from query_for_task_runs_found [OF q] have "matches (where_any\<lparr>where_id := Some j\<rparr>) d"
    by blast
  with t show ?thesis by (simp add: matches_def where_any_def from_task_run_data_def)
qed

lemma dom_add_task_run: "i \<in> dom (task_runs f) \<Longrightarrow> i \<in> dom (task_runs (add_task_run t f))"
  by (auto simp: task_runs_add_task_run)

lemma dom_ids_update: "i \<in> dom (task_runs f) \<Longrightarrow> i \<in> dom (task_runs (f\<lparr>priv_task_run_ids := ids\<rparr>))"
  by (simp add: task_runs_def)

lemma get_by_id_keeps:
  assumes "coherent fr" and "task_runs fr i = Some r"
  shows "task_runs (fst (snd (get tk tslug (Some j) fr w))) i = Some r"
proof (cases "task_runs fr j")
  case None
  then have ne: "j \<noteq> i" using assms(2) by auto
  show ?thesis
  proof (cases "from_task_run_id j w")
    case (Pair x w')
    show ?thesis
    proof (cases x)
      case (Inl e)
      with Pair None assms(2) show ?thesis
        by (simp add: get_def split: sum.splits)
    next
      case (Inr t)
      with Pair have "task_run_id t = j" using from_task_run_id_id by simp
      with Pair Inr None assms(2) ne show ?thesis
        by (simp add: get_def task_runs_add_task_run split: sum.splits)
    qed
  qed
next
  case (Some rj)
  with assms(1) have "add_task_run rj fr = fr" by (rule add_task_run_cached)
  with Some assms(2) show ?thesis
    by (simp add: get_def split: sum.splits)
qed

lemma get_by_slug_fetches:
  assumes "coherent fr"
    and "get_slug tk tslug = Inr (Some s)"
    and "\<not> (1 < length (remdups (ids_for_slug fr s)) \<and>
            (\<exists>k\<in>set (ids_for_slug fr s). \<exists>b. task_runs fr k = Some b \<and> map_index b = - 1))"
  shows "get tk tslug None fr w = get_fetch_slug s fr w"
proof (cases "priv_task_slug_to_task_run_ids fr s")
  case None
  with assms(2) show ?thesis by (simp add: get_def)
next
  case (Some ids)
  then have ids: "ids_for_slug fr s = ids" by (simp add: ids_for_slug_def)
  show ?thesis
  proof (cases "1 < length (remdups ids)")
    case False
    with Some assms(2) show ?thesis by (simp add: get_def)
  next
    case True
    with assms(3) ids have nb: "\<forall>k\<in>set ids. \<forall>r. task_runs fr k = Some r \<longrightarrow> map_index r \<noteq> - 1"
      by blast
    from assms(1) ids have sub: "set ids \<subseteq> dom (task_runs fr)"
      unfolding coherent_def by blast
    from find_base_none [OF sub nb] Some True assms(2) show ?thesis
      by (simp add: get_def)
  qed
qed

lemma get_fetch_slug_result:
  assumes "get_fetch_slug s fr w = (Inr t, fr', w')"
  shows "fr' = add_task_run t fr \<and>
         w' = record_call (Query_task_runs
                (where_any\<lparr>where_slug := Some s, where_flow_run_id := Some (flow_run_id fr),
                   where_map_index := Some (- 1)\<rparr>)) w"
proof -
  from assms have "fr' = add_task_run t fr"
    by (auto simp: get_fetch_slug_def split: prod.splits sum.splits)
  moreover from assms get_fetch_slug_world [of s fr w] have
    "w' = record_call (Query_task_runs
                (where_any\<lparr>where_slug := Some s, where_flow_run_id := Some (flow_run_id fr),
                   where_map_index := Some (- 1)\<rparr>)) w"
    by simp
  ultimately show ?thesis by simp
qed

text \<open>
  C9, as amended. On a run with a coherent cache that holds the record \<open>r\<close> under the id
  \<open>i\<close>: \<open>get\<close> by that id returns \<open>r\<close> and leaves the run and the world as they are (no remote
  call); a lookup by any task-run id leaves \<open>r\<close> cached under \<open>i\<close>; and \<open>i\<close> stays a key
  of the cache after every \<open>get\<close>, \<open>iter_mapped\<close> and \<open>get_all\<close> (it is never evicted).
  A lookup by slug that returns a record, other than one on a cache that holds at least
  two ids of the slug with a base record among them, has made exactly the one remote
  query by slug, and the cache afterwards is the cache before with the fetched record
  stored under its id, in place of whatever was cached there.
\<close>

theorem cached_record_kept:
  assumes "coherent fr" and "task_runs fr i = Some r"
  shows "get None None (Some i) fr w = (Inr r, fr, w) \<and>
         task_runs (fst (snd (get tk tslug (Some j) fr v))) i = Some r \<and>
         i \<in> dom (task_runs (fst (snd (get tk tslug trid fr v)))) \<and>
         i \<in> dom (task_runs (fst (snd (iter_mapped tk tslug c fr v)))) \<and>
         i \<in> dom (task_runs (fst (snd (get_all fr v)))) \<and>
         (get_slug tk tslug = Inr (Some s) \<and>
          \<not> (1 < length (remdups (ids_for_slug fr s)) \<and>
             (\<exists>k\<in>set (ids_for_slug fr s). \<exists>b. task_runs fr k = Some b \<and> map_index b = - 1)) \<and>
          get tk tslug None fr v = (Inr t, fr2, v2) \<longrightarrow>
            v2 = record_call (Query_task_runs
                   (where_any\<lparr>where_slug := Some s, where_flow_run_id := Some (flow_run_id fr),
                      where_map_index := Some (- 1)\<rparr>)) v \<and>
            task_runs fr2 = (task_runs fr)(task_run_id t \<mapsto> t))"
proof -
  have d: "i \<in> dom (task_runs fr)" using assms(2) by auto
  have "get None None (Some i) fr w = (Inr r, fr, w)"
    using assms by (simp add: get_def get_slug_def add_task_run_cached)
  moreover have "v2 = record_call (Query_task_runs
                   (where_any\<lparr>where_slug := Some s, where_flow_run_id := Some (flow_run_id fr),
                      where_map_index := Some (- 1)\<rparr>)) v \<and>
            task_runs fr2 = (task_runs fr)(task_run_id t \<mapsto> t)"
    if "get_slug tk tslug = Inr (Some s)"
      "\<not> (1 < length (remdups (ids_for_slug fr s)) \<and>
             (\<exists>k\<in>set (ids_for_slug fr s). \<exists>b. task_runs fr k = Some b \<and> map_index b = - 1))"
      "get tk tslug None fr v = (Inr t, fr2, v2)"
  proof -
    from get_by_slug_fetches [OF assms(1) that(1,2), of v] that(3)
    have "get_fetch_slug s fr v = (Inr t, fr2, v2)" by simp
    from get_fetch_slug_result [OF this] show ?thesis
      by (simp add: task_runs_add_task_run)
  qed
  moreover note get_by_id_keeps [OF assms]
    get_preserves [of "\<lambda>f. i \<in> dom (task_runs f)", OF dom_add_task_run d]
    iter_mapped_preserves [of "\<lambda>f. i \<in> dom (task_runs f)", OF dom_add_task_run d]
    get_all_preserves [of "\<lambda>f. i \<in> dom (task_runs f)", OF dom_add_task_run dom_ids_update d]
  ultimately show ?thesis by blast
qed

lemma FlowRun_init_flow_run_id:
  "flow_run_id (FlowRun_init rid nm fid fname fstorage config st trs) = rid"
  unfolding FlowRun_init_def
  by (rule foldl_add_preserves [of "\<lambda>f. flow_run_id f = rid"]) simp_all

lemma example_run_one:
  "task_runs (example_run [t]) = [task_run_id t \<mapsto> t]"
  "priv_task_slug_to_task_run_ids (example_run [t]) = [task_slug t \<mapsto> [task_run_id t]]"
  by (auto simp: example_run_def FlowRun_init_def add_task_run_def task_runs_def set_add_def)

lemma example_run_id [simp]: "flow_run_id (example_run trs) = ''r1''"
  by (simp add: example_run_def FlowRun_init_flow_run_id)

text \<open>
  C9 as stated fails: a lookup by slug on a run that caches one record of the slug goes
  to the remote store and stores what it fetched under the cached id. Here the cached base
  record is \<open>Running\<close>, the remote one \<open>Success\<close>.
\<close>

theorem cached_record_refreshed_counterexample:
  "task_runs (example_run [example_unmapped]) ''i1'' = Some example_unmapped \<and>
   task_runs (fst (snd (get None (Some ''x'') None (example_run [example_unmapped])
       (example_world [example_unmapped\<lparr>task_state := Success\<rparr>])))) ''i1''
     = Some (example_unmapped\<lparr>task_state := Success\<rparr>) \<and>
   example_unmapped\<lparr>task_state := Success\<rparr> \<noteq> example_unmapped"
proof -
  have f: "task_run_id example_unmapped = ''i1''" "task_slug example_unmapped = ''x''"
    by (simp_all add: example_unmapped_def)
  have m: "matches (where_any\<lparr>where_slug := Some ''x'', where_flow_run_id := Some ''r1'',
        where_map_index := Some (- 1)\<rparr>) (example_unmapped\<lparr>task_state := Success\<rparr>)"
    by (simp add: matches_def where_any_def example_unmapped_def)
  have "get_fetch_slug ''x'' (example_run [example_unmapped])
       (example_world [example_unmapped\<lparr>task_state := Success\<rparr>])
     = (Inr (example_unmapped\<lparr>task_state := Success\<rparr>),
        add_task_run (example_unmapped\<lparr>task_state := Success\<rparr>) (example_run [example_unmapped]),
        record_call (Query_task_runs (where_any\<lparr>where_slug := Some ''x'',
           where_flow_run_id := Some ''r1'', where_map_index := Some (- 1)\<rparr>))
          (example_world [example_unmapped\<lparr>task_state := Success\<rparr>]))"
    using m
    by (simp add: get_fetch_slug_def from_task_slug_def query_for_task_runs_def Let_def
        example_run_one example_world_def from_task_run_data_def)
  then have "fst (snd (get None (Some ''x'') None (example_run [example_unmapped])
       (example_world [example_unmapped\<lparr>task_state := Success\<rparr>])))
     = add_task_run (example_unmapped\<lparr>task_state := Success\<rparr>) (example_run [example_unmapped])"
    by (simp add: get_def get_slug_def example_run_one f)
  then show ?thesis
    by (simp add: task_runs_add_task_run example_run_one f) (simp add: example_unmapped_def)
qed


lemma example_fields [simp]:
  "task_run_id example_base = ''i1''" "task_slug example_base = ''x''"
  "map_index example_base = - 1" "task_flow_run_id example_base = ''r1''"
  "task_run_id example_child = ''i2''" "task_slug example_child = ''x''"
  "map_index example_child = 0" "task_flow_run_id example_child = ''r1''"
  "task_run_id example_child2 = ''i3''" "task_slug example_child2 = ''x''"
  "map_index example_child2 = 1" "task_flow_run_id example_child2 = ''r1''"
  by (simp_all add: example_base_def example_child_def example_child2_def)

lemma example_run_two:
  "task_runs (example_run [t1, t2]) = [task_run_id t1 \<mapsto> t1, task_run_id t2 \<mapsto> t2]"
  "task_run_id t1 \<noteq> task_run_id t2 \<Longrightarrow> task_slug t1 = task_slug t2 \<Longrightarrow>
     priv_task_slug_to_task_run_ids (example_run [t1, t2])
       = [task_slug t1 \<mapsto> [task_run_id t1, task_run_id t2]]"
  by (auto simp: example_run_def FlowRun_init_def add_task_run_def task_runs_def set_add_def)

lemma example_query_base:
  "query_for_task_runs (where_any\<lparr>where_slug := Some ''x'', where_flow_run_id := Some ''r1'',
       where_map_index := Some (- 1)\<rparr>) False True
     (example_world [example_base, example_child, example_child2])
   = (Inr [example_base],
      record_call (Query_task_runs (where_any\<lparr>where_slug := Some ''x'',
          where_flow_run_id := Some ''r1'', where_map_index := Some (- 1)\<rparr>))
        (example_world [example_base, example_child, example_child2]))"
  by (simp add: query_for_task_runs_def Let_def example_world_def matches_def where_any_def)

theorem get_by_slug_mapped_family_witness:
  "get None (Some ''x'') None (example_run [example_base, example_child]) (example_world [])
     = (Inr example_base, example_run [example_base, example_child], example_world []) \<and>
   get None (Some ''x'') None (example_run [example_child, example_base]) (example_world [])
     = (Inr example_base, example_run [example_child, example_base], example_world []) \<and>
   get None (Some ''x'') None (example_run [example_child, example_child2])
       (example_world [example_base, example_child, example_child2])
     = (Inr example_base,
        add_task_run example_base (example_run [example_child, example_child2]),
        record_call (Query_task_runs (where_any\<lparr>where_slug := Some ''x'',
            where_flow_run_id := Some ''r1'', where_map_index := Some (- 1)\<rparr>))
          (example_world [example_base, example_child, example_child2]))"
proof -
  have s: "get_slug None (Some ''x'') = Inr (Some ''x'')" by (simp add: get_slug_def)
  have found: "get None (Some ''x'') None (example_run [t1, t2]) (example_world [])
      = (Inr example_base, example_run [t1, t2], example_world [])"
    if "{t1, t2} = {example_base, example_child}" "task_run_id t1 \<noteq> task_run_id t2"
      "task_slug t1 = ''x''" "task_slug t2 = ''x''" for t1 t2
  proof -
    let ?fr = "example_run [t1, t2]"
    have 2: "priv_task_slug_to_task_run_ids ?fr ''x'' = Some [task_run_id t1, task_run_id t2]"
      using that by (simp add: example_run_two)
    have 3: "1 < length (remdups [task_run_id t1, task_run_id t2])" using that by simp
    have 4: "set [task_run_id t1, task_run_id t2] \<subseteq> dom (task_runs ?fr)"
      by (simp add: example_run_two)
    have "example_base \<in> {t1, t2}" using that(1) by simp
    then have 5: "\<exists>i\<in>set [task_run_id t1, task_run_id t2].
        \<exists>r. task_runs ?fr i = Some r \<and> map_index r = - 1"
      using that(2) by (auto simp: example_run_two)
    from get_by_slug_mapped_family [OF s 2 3 4, of "example_world []"] 5
    obtain i r where ir: "i \<in> set [task_run_id t1, task_run_id t2]"
      "task_runs ?fr i = Some r" "map_index r = - 1"
      "get None (Some ''x'') None ?fr (example_world []) = (Inr r, ?fr, example_world [])"
      by blast
    from ir(1,2) that(2) have "r \<in> {t1, t2}"
      by (auto simp: example_run_two split: if_splits)
    with that(1) ir(3) have "r = example_base" by auto
    with ir(4) show ?thesis by simp
  qed
  have a: "get None (Some ''x'') None (example_run [example_base, example_child]) (example_world [])
     = (Inr example_base, example_run [example_base, example_child], example_world [])"
    by (rule found) simp_all
  have b: "get None (Some ''x'') None (example_run [example_child, example_base]) (example_world [])
     = (Inr example_base, example_run [example_child, example_base], example_world [])"
    by (rule found) auto
  let ?fr = "example_run [example_child, example_child2]"
  let ?w = "example_world [example_base, example_child, example_child2]"
  have 2: "priv_task_slug_to_task_run_ids ?fr ''x'' = Some [''i2'', ''i3'']"
    by (simp add: example_run_two)
  have 3: "1 < length (remdups [''i2'', ''i3''])" by simp
  have 4: "set [''i2'', ''i3''] \<subseteq> dom (task_runs ?fr)" by (simp add: example_run_two)
  have 5: "\<forall>i\<in>set [''i2'', ''i3'']. \<forall>r. task_runs ?fr i = Some r \<longrightarrow> map_index r \<noteq> - 1"
    by (auto simp: example_run_two)
  from get_by_slug_mapped_family [OF s 2 3 4, of ?w] 5
  have "get None (Some ''x'') None ?fr ?w = get_fetch_slug ''x'' ?fr ?w" by blast
  then have c: "get None (Some ''x'') None ?fr ?w
     = (Inr example_base, add_task_run example_base ?fr,
        record_call (Query_task_runs (where_any\<lparr>where_slug := Some ''x'',
            where_flow_run_id := Some ''r1'', where_map_index := Some (- 1)\<rparr>)) ?w)"
    by (simp add: get_fetch_slug_def from_task_slug_def example_query_base from_task_run_data_def)
  from a b c show ?thesis by blast
qed

section \<open>Mapped iteration and the bulk fetch\<close>

lemma query_for_task_runs_one:
  assumes "task_run_tbl w = Some tbl" and "filter (matches wh) tbl = [r]"
  shows "query_for_task_runs wh many eoe w = (Inr [r], record_call (Query_task_runs wh) w)"
  using assms by (simp add: query_for_task_runs_def Let_def)

lemma query_for_task_runs_empty:
  assumes "task_run_tbl w = Some tbl" and "filter (matches wh) tbl = []"
  shows "query_for_task_runs wh many False w = (Inr [], record_call (Query_task_runs wh) w)"
  using assms by (simp add: query_for_task_runs_def Let_def)

lemma record_call_fields [simp]:
  "task_run_tbl (record_call c w) = task_run_tbl w"
  "flow_run_tbl (record_call c w) = flow_run_tbl w"
  "run_logs (record_call c w) = run_logs w"
  "context_secrets (record_call c w) = context_secrets w"
  "calls (record_call c w) = calls w @ [c]"
  by (simp_all add: record_call_def)

lemma record_calls_record_call:
  "record_calls cs (record_call c w) = record_calls (c # cs) w"
  by (simp add: record_calls_def record_call_def)

lemma iter_mapped_loop_dense:
  assumes "task_run_tbl w = Some tbl"
    and "\<forall>j<length rs.
           filter (matches (where_mapped s (flow_run_id fr) (int (k + j)))) tbl = [rs ! j]"
    and "filter (matches (where_mapped s (flow_run_id fr) (int (k + length rs)))) tbl = []"
  shows "iter_mapped_loop s c k fr w =
     ((map from_task_run_data rs, None),
      (if c then foldl (\<lambda>f t. add_task_run t f) fr (map from_task_run_data rs) else fr),
      record_calls (map (\<lambda>j. Query_task_runs (where_mapped s (flow_run_id fr) (int j)))
          [k..<Suc (k + length rs)]) w)"
  using assms
proof (induction rs arbitrary: k fr w)
  case Nil
  from Nil.prems(1,3) show ?case
    by (subst iter_mapped_loop.simps)
       (simp add: query_for_task_runs_empty record_calls_def record_call_def)
next
  case (Cons r rs)
  let ?fr = "if c then add_task_run (from_task_run_data r) fr else fr"
  let ?w = "record_call (Query_task_runs (where_mapped s (flow_run_id fr) (int k))) w"
  have id: "flow_run_id ?fr = flow_run_id fr" by simp
  from Cons.prems(2) have q0: "filter (matches (where_mapped s (flow_run_id fr) (int k))) tbl = [r]"
    by force
  have q: "query_for_task_runs (where_mapped s (flow_run_id fr) (int k)) False False w
      = (Inr [r], ?w)"
    using Cons.prems(1) q0 by (rule query_for_task_runs_one)
  have t: "task_run_tbl ?w = Some tbl" using Cons.prems(1) by simp
  have rows: "\<forall>j<length rs.
           filter (matches (where_mapped s (flow_run_id ?fr) (int (Suc k + j)))) tbl = [rs ! j]"
  proof (intro allI impI)
    fix j assume "j < length rs"
    then have "Suc j < length (r # rs)" by simp
    with Cons.prems(2) have
      "filter (matches (where_mapped s (flow_run_id fr) (int (k + Suc j)))) tbl = [(r # rs) ! Suc j]"
      by blast
    then show "filter (matches (where_mapped s (flow_run_id ?fr) (int (Suc k + j)))) tbl = [rs ! j]"
      by (simp add: id)
  qed
  have stop: "filter (matches (where_mapped s (flow_run_id ?fr) (int (Suc k + length rs)))) tbl = []"
    using Cons.prems(3) by (simp add: id)
  note ih = Cons.IH [OF t rows stop]
  have upt: "[k..<Suc (Suc (k + length rs))] = k # [Suc k..<Suc (Suc (k + length rs))]"
    using upt_rec [of k "Suc (Suc (k + length rs))"] by simp
  show ?case
    apply (subst iter_mapped_loop.simps)
    apply (simp only: q ih prod.case sum.case list.case)
    apply (simp add: id record_calls_record_call upt del: upt_Suc)
    done
qed


text \<open>
  C3. For a slug whose base record in the remote store is mapped and whose per-index
  lookups find exactly the record \<open>rs ! j\<close> at every index \<open>j < N\<close> and nothing at the index
  \<open>N\<close> (\<open>N = length rs\<close>), the iteration terminates having yielded exactly \<open>rs\<close>, in index
  order, without an error; it made the base query and the queries for the indices
  \<open>0, ..., N\<close> and no other call, so the first missing index ends it whatever the store
  holds beyond. With caching on, the yielded records were added to the cache in order.
\<close>

theorem iter_mapped_dense:
  assumes "iter_mapped_slug tk tslug = Inr s"
    and "task_run_tbl w = Some tbl"
    and "filter (matches (where_mapped s (flow_run_id fr) (- 1))) tbl = [b]"
    and "is_mapped (task_state b)"
    and "\<forall>j<length rs.
           filter (matches (where_mapped s (flow_run_id fr) (int j))) tbl = [rs ! j]"
    and "filter (matches (where_mapped s (flow_run_id fr) (int (length rs)))) tbl = []"
  shows "iter_mapped tk tslug c fr w =
     ((rs, None),
      (if c then foldl (\<lambda>f t. add_task_run t f) fr rs else fr),
      record_calls
        (Query_task_runs (where_mapped s (flow_run_id fr) (- 1)) #
         map (\<lambda>j. Query_task_runs (where_mapped s (flow_run_id fr) (int j)))
           [0..<Suc (length rs)]) w)"
proof -
  let ?w = "record_call (Query_task_runs (where_mapped s (flow_run_id fr) (- 1))) w"
  have q: "query_for_task_runs (where_mapped s (flow_run_id fr) (- 1)) False True w
      = (Inr [b], ?w)"
    using assms(2,3) by (rule query_for_task_runs_one)
  have t: "task_run_tbl ?w = Some tbl" using assms(2) by simp
  have rows: "\<forall>j<length rs.
      filter (matches (where_mapped s (flow_run_id fr) (int (0 + j)))) tbl = [rs ! j]"
    using assms(5) by simp
  have stop: "filter (matches (where_mapped s (flow_run_id fr) (int (0 + length rs)))) tbl = []"
    using assms(6) by simp
  have m: "map from_task_run_data rs = rs"
    by (simp add: from_task_run_data_def map_idI)
  note loop = iter_mapped_loop_dense [OF t rows stop, of c, unfolded m]
  show ?thesis
    unfolding iter_mapped_def
    apply (simp only: assms(1) q sum.case prod.case list.case)
    apply (simp add: assms(4) from_task_run_data_def loop record_calls_record_call del: upt_Suc)
    done
qed

text \<open>
  A base record that is not mapped ends the iteration with an error after the base query
  alone. Which error depends on the attribute \<open>slug\<close> that the message of line 354 reads:
  without it the read raises \<open>AttributeError\<close> and the \<open>raise TypeError\<close> is never reached.
\<close>

lemma iter_mapped_not_mapped_error:
  assumes "iter_mapped_slug tk tslug = Inr s"
    and "task_run_tbl w = Some tbl"
    and "filter (matches (where_mapped s (flow_run_id fr) (- 1))) tbl = [b]"
    and "\<not> is_mapped (task_state b)"
  shows "iter_mapped tk tslug c fr w =
     (([], Some (case slug_attr b of
                  None \<Rightarrow> Exception AttributeError ''TaskRun object has no attribute slug''
                | Some sl \<Rightarrow> Exception TypeError ''task run is not a mapped task'')), fr,
      record_call (Query_task_runs (where_mapped s (flow_run_id fr) (- 1))) w)"
proof -
  have q: "query_for_task_runs (where_mapped s (flow_run_id fr) (- 1)) False True w
      = (Inr [b], record_call (Query_task_runs (where_mapped s (flow_run_id fr) (- 1))) w)"
    using assms(2,3) by (rule query_for_task_runs_one)
  show ?thesis
    unfolding iter_mapped_def
    by (cases "slug_attr b") (simp_all add: assms(1,4) q from_task_run_data_def)
qed

text \<open>
  C5. When the property \<open>task_run_ids\<close> gives more than 1000 ids for the run, \<open>get_all\<close>
  raises the \<open>ValueError\<close> of lines 378-381; the two cache indexes are as before, and the
  only remote call that may have been made is the query for the ids: no task-run record
  was fetched.
\<close>

theorem get_all_refuses:
  assumes "task_run_ids fr w = (Inr ids, fr', w')" and "1000 < length ids"
  shows "get_all fr w =
           (Inl (Exception ValueError
                   ''Refusing to get_all for a flow with more than 1000 tasks''), fr', w') \<and>
         priv_task_runs fr' = priv_task_runs fr \<and>
         priv_task_slug_to_task_run_ids fr' = priv_task_slug_to_task_run_ids fr \<and>
         (w' = w \<or> w' = record_call (Graphql_task_run_ids (flow_run_id fr)) w)"
proof -
  have "get_all fr w =
           (Inl (Exception ValueError
                   ''Refusing to get_all for a flow with more than 1000 tasks''), fr', w')"
    using assms by (simp add: get_all_def)
  moreover from assms(1) have "priv_task_runs fr' = priv_task_runs fr \<and>
         priv_task_slug_to_task_run_ids fr' = priv_task_slug_to_task_run_ids fr \<and>
         (w' = w \<or> w' = record_call (Graphql_task_run_ids (flow_run_id fr)) w)"
    by (auto simp: task_run_ids_def Let_def split: option.splits list.splits if_splits)
  ultimately show ?thesis by simp
qed


lemma example_fields4 [simp]:
  "task_run_id example_child4 = ''i5''" "task_slug example_child4 = ''x''"
  "map_index example_child4 = 3" "task_flow_run_id example_child4 = ''r1''"
  "task_slug example_unmapped = ''x''" "map_index example_unmapped = - 1"
  "task_flow_run_id example_unmapped = ''r1''" "task_run_id example_unmapped = ''i1''"
  by (simp_all add: example_child4_def example_unmapped_def)

lemma example_world_fields [simp]:
  "task_run_tbl (example_world tbl) = Some tbl"
  "calls (example_world tbl) = []"
  by (simp_all add: example_world_def)

lemma example_run_empty [simp]:
  "priv_task_run_ids (example_run []) = None"
  "state (example_run []) = Running"
  by (simp_all add: example_run_def FlowRun_init_def)

theorem iter_mapped_dense_witness:
  "iter_mapped None (Some ''x'') True (example_run [])
       (example_world [example_base, example_child, example_child2, example_child4])
     = (([example_child, example_child2], None),
        foldl (\<lambda>f t. add_task_run t f) (example_run []) [example_child, example_child2],
        record_calls
          [Query_task_runs (where_mapped ''x'' ''r1'' (- 1)),
           Query_task_runs (where_mapped ''x'' ''r1'' 0),
           Query_task_runs (where_mapped ''x'' ''r1'' 1),
           Query_task_runs (where_mapped ''x'' ''r1'' 2)]
          (example_world [example_base, example_child, example_child2, example_child4]))"
proof -
  let ?tbl = "[example_base, example_child, example_child2, example_child4]"
  have 1: "iter_mapped_slug None (Some ''x'') = Inr ''x''" by (simp add: iter_mapped_slug_def)
  have 2: "task_run_tbl (example_world ?tbl) = Some ?tbl" by simp
  have 3: "filter (matches (where_mapped ''x'' (flow_run_id (example_run [])) (- 1))) ?tbl
      = [example_base]"
    by (simp add: matches_def where_mapped_def)
  have 4: "is_mapped (task_state example_base)" by (simp add: example_base_def)
  have 5: "\<forall>j<length [example_child, example_child2].
      filter (matches (where_mapped ''x'' (flow_run_id (example_run [])) (int j))) ?tbl
        = [[example_child, example_child2] ! j]"
    by (auto simp: matches_def where_mapped_def less_Suc_eq)
  have 6: "filter (matches (where_mapped ''x'' (flow_run_id (example_run []))
      (int (length [example_child, example_child2])))) ?tbl = []"
    by (simp add: matches_def where_mapped_def)
  from iter_mapped_dense [OF 1 2 3 4 5 6, of True] show ?thesis
    by (simp add: numeral_2_eq_2)
qed

text \<open>
  C4 fails on the code. The base record of the slug \<open>x\<close> is \<open>Running\<close>, not mapped: the
  iteration makes the base query and no per-index fetch, yields nothing and leaves the
  cache as it is, but the error it ends with is the \<open>AttributeError\<close> of reading
  \<open>task_run.slug\<close> at line 354, not the \<open>TypeError\<close> the code is about to raise.
\<close>

theorem iter_mapped_not_mapped_raises:
  "iter_mapped None (Some ''x'') True (example_run [])
       (example_world [example_unmapped, example_child])
     = (([], Some (Exception AttributeError ''TaskRun object has no attribute slug'')),
        example_run [],
        record_call (Query_task_runs (where_mapped ''x'' ''r1'' (- 1)))
          (example_world [example_unmapped, example_child]))"
proof -
  let ?tbl = "[example_unmapped, example_child]"
  have 1: "iter_mapped_slug None (Some ''x'') = Inr ''x''" by (simp add: iter_mapped_slug_def)
  have 2: "task_run_tbl (example_world ?tbl) = Some ?tbl" by simp
  have 3: "filter (matches (where_mapped ''x'' (flow_run_id (example_run [])) (- 1))) ?tbl
      = [example_unmapped]"
    by (simp add: matches_def where_mapped_def)
  have 4: "\<not> is_mapped (task_state example_unmapped)" by (simp add: example_unmapped_def)
  have 5: "slug_attr example_unmapped = None" by (simp add: example_unmapped_def)
  from iter_mapped_not_mapped_error [OF 1 2 3 4, of True] 5 show ?thesis by simp
qed

theorem get_all_refuses_witness:
  "length example_many = 1001 \<and>
   get_all (example_run []) (example_world example_many)
     = (Inl (Exception ValueError
               ''Refusing to get_all for a flow with more than 1000 tasks''),
        example_run [],
        record_call (Graphql_task_run_ids ''r1'') (example_world example_many))"
proof -
  have len: "length example_many = 1001" by (simp add: example_many_def)
  have f: "filter (\<lambda>t. task_flow_run_id t = ''r1'') example_many = example_many"
    by (simp add: example_many_def filter_map o_def)
  have ids: "task_run_ids (example_run []) (example_world example_many)
      = (Inr (map task_run_id example_many), example_run [],
         record_call (Graphql_task_run_ids ''r1'') (example_world example_many))"
    by (simp add: task_run_ids_def Let_def f)
  have gt: "1000 < length (map task_run_id example_many)" by (simp add: len)
  from get_all_refuses [OF ids gt] len show ?thesis by simp
qed

section \<open>The cache after lookups\<close>

lemma example_refresh_get:
  "get None (Some ''x'') None (example_run [example_unmapped])
       (example_world [example_unmapped\<lparr>task_state := Success\<rparr>])
     = (Inr (example_unmapped\<lparr>task_state := Success\<rparr>),
        add_task_run (example_unmapped\<lparr>task_state := Success\<rparr>)
          (example_run [example_unmapped]),
        record_call (Query_task_runs (where_any\<lparr>where_slug := Some ''x'',
            where_flow_run_id := Some ''r1'', where_map_index := Some (- 1)\<rparr>))
          (example_world [example_unmapped\<lparr>task_state := Success\<rparr>]))"
proof -
  have m: "matches (where_any\<lparr>where_slug := Some ''x'', where_flow_run_id := Some ''r1'',
        where_map_index := Some (- 1)\<rparr>) (example_unmapped\<lparr>task_state := Success\<rparr>)"
    by (simp add: matches_def where_any_def)
  have "get_fetch_slug ''x'' (example_run [example_unmapped])
       (example_world [example_unmapped\<lparr>task_state := Success\<rparr>])
     = (Inr (example_unmapped\<lparr>task_state := Success\<rparr>),
        add_task_run (example_unmapped\<lparr>task_state := Success\<rparr>) (example_run [example_unmapped]),
        record_call (Query_task_runs (where_any\<lparr>where_slug := Some ''x'',
           where_flow_run_id := Some ''r1'', where_map_index := Some (- 1)\<rparr>))
          (example_world [example_unmapped\<lparr>task_state := Success\<rparr>]))"
    using m
    by (simp add: get_fetch_slug_def from_task_slug_def query_for_task_runs_def Let_def
        from_task_run_data_def)
  then show ?thesis
    by (simp add: get_def get_slug_def example_run_one)
qed

theorem cached_record_kept_witness:
  "coherent (example_run [example_base, example_child]) \<and>
   task_runs (example_run [example_base, example_child]) ''i2'' = Some example_child \<and>
   get None None (Some ''i2'') (example_run [example_base, example_child])
       (example_world [example_base, example_child, example_child2])
     = (Inr example_child, example_run [example_base, example_child],
        example_world [example_base, example_child, example_child2]) \<and>
   task_runs (fst (snd (get None None (Some ''i3'') (example_run [example_base, example_child])
       (example_world [example_base, example_child, example_child2])))) ''i2''
     = Some example_child \<and>
   ''i2'' \<in> dom (task_runs (fst (snd (get None (Some ''x'') None
       (example_run [example_base, example_child])
       (example_world [example_base, example_child, example_child2]))))) \<and>
   coherent (example_run [example_unmapped]) \<and>
   task_runs (example_run [example_unmapped]) ''i1'' = Some example_unmapped \<and>
   get_slug None (Some ''x'') = Inr (Some ''x'') \<and>
   length (remdups (ids_for_slug (example_run [example_unmapped]) ''x'')) = 1 \<and>
   task_runs (fst (snd (get None (Some ''x'') None (example_run [example_unmapped])
       (example_world [example_unmapped\<lparr>task_state := Success\<rparr>]))))
     = (task_runs (example_run [example_unmapped]))
         (''i1'' \<mapsto> example_unmapped\<lparr>task_state := Success\<rparr>)"
proof -
  have c: "coherent (example_run [example_base, example_child])"
    by (simp add: example_run_def coherent_FlowRun_init)
  have t: "task_runs (example_run [example_base, example_child]) ''i2'' = Some example_child"
    by (simp add: example_run_two)
  have first: "get None None (Some ''i2'') (example_run [example_base, example_child])
       (example_world [example_base, example_child, example_child2])
     = (Inr example_child, example_run [example_base, example_child],
        example_world [example_base, example_child, example_child2]) \<and>
   task_runs (fst (snd (get None None (Some ''i3'') (example_run [example_base, example_child])
       (example_world [example_base, example_child, example_child2])))) ''i2''
     = Some example_child \<and>
   ''i2'' \<in> dom (task_runs (fst (snd (get None (Some ''x'') None
       (example_run [example_base, example_child])
       (example_world [example_base, example_child, example_child2])))))"
    using cached_record_kept [OF c t] by blast
  let ?fr = "example_run [example_unmapped]"
  let ?w = "example_world [example_unmapped\<lparr>task_state := Success\<rparr>]"
  have c2: "coherent ?fr" by (simp add: example_run_def coherent_FlowRun_init)
  have t2: "task_runs ?fr ''i1'' = Some example_unmapped" by (simp add: example_run_one)
  have sl: "get_slug None (Some ''x'') = Inr (Some ''x'')" by (simp add: get_slug_def)
  have len: "length (remdups (ids_for_slug ?fr ''x'')) = 1"
    by (simp add: ids_for_slug_def example_run_one)
  then have small: "\<not> (1 < length (remdups (ids_for_slug ?fr ''x'')) \<and>
      (\<exists>k\<in>set (ids_for_slug ?fr ''x''). \<exists>b. task_runs ?fr k = Some b \<and> map_index b = - 1))"
    by simp
  from cached_record_kept [OF c2 t2, where tk = None and tslug = "Some ''x''" and s = "''x''"
      and v = ?w and t = "example_unmapped\<lparr>task_state := Success\<rparr>"
      and ?fr2.0 = "add_task_run (example_unmapped\<lparr>task_state := Success\<rparr>) ?fr"
      and ?v2.0 = "record_call (Query_task_runs (where_any\<lparr>where_slug := Some ''x'',
            where_flow_run_id := Some ''r1'', where_map_index := Some (- 1)\<rparr>)) ?w"]
    sl small example_refresh_get
  have "task_runs (add_task_run (example_unmapped\<lparr>task_state := Success\<rparr>) ?fr)
      = (task_runs ?fr)(task_run_id (example_unmapped\<lparr>task_state := Success\<rparr>)
           \<mapsto> example_unmapped\<lparr>task_state := Success\<rparr>)"
    by blast
  then have second: "task_runs (fst (snd (get None (Some ''x'') None ?fr ?w)))
     = (task_runs ?fr)(''i1'' \<mapsto> example_unmapped\<lparr>task_state := Success\<rparr>)"
    by (simp add: example_refresh_get)
  from c t first c2 t2 sl len second show ?thesis by blast
qed

subsection \<open>How exact the slug index is\<close>





lemma store_rows_record_call [simp]: "store_rows (record_call c w) = store_rows w"
  by (simp add: store_rows_def)















section \<open>The guard and \<open>execute_flow_run\<close> on the code\<close>

text \<open>
  The constructor call of \<open>from_flow_run_id\<close> never passes \<open>flow_id\<close>: the function raises
  on every input, so the handlers of the guard never get past their re-read of the run.
\<close>

lemma from_flow_run_id_raises:
  "\<exists>e. fst (from_flow_run_id rid l extra w) = Inl e"
  by (auto simp: from_flow_run_id_def Let_def FlowRun_call_def split: option.splits prod.splits sum.splits)

lemma from_flow_run_id_never_returns:
  "from_flow_run_id rid l extra w \<noteq> (Inr fr, w')"
  using from_flow_run_id_raises [of rid l extra w] by auto

lemma example_remote_static:
  assumes "flow_run_tbl w ''r1'' = Some d" and "task_run_tbl w = Some [example_base]"
  shows "from_flow_run_id ''r1'' True None w =
     (Inl (Exception TypeError ''__init__() missing flow_id''),
      record_calls
        [Graphql_flow_run_by_pk ''r1'',
         Query_task_runs (where_any\<lparr>where_map_index := Some (- 1),
                            where_flow_run_id := Some ''r1''\<rparr>)] w)"
proof -
  have f: "filter (matches (where_any\<lparr>where_map_index := Some (- 1),
                            where_flow_run_id := Some ''r1''\<rparr>)) [example_base] = [example_base]"
    by (simp add: matches_def where_any_def)
  have q: "query_for_task_runs (where_any\<lparr>where_map_index := Some (- 1),
          where_flow_run_id := Some ''r1''\<rparr>) True True (record_call (Graphql_flow_run_by_pk ''r1'') w)
     = (Inr [example_base],
        record_call (Query_task_runs (where_any\<lparr>where_map_index := Some (- 1),
          where_flow_run_id := Some ''r1''\<rparr>)) (record_call (Graphql_flow_run_by_pk ''r1'') w))"
    by (rule query_for_task_runs_one [OF _ f]) (simp add: assms)
  show ?thesis
    unfolding from_flow_run_id_def Let_def
    by (simp add: assms(1) q FlowRun_call_def) (simp add: record_calls_def record_call_def)
qed

lemma example_remote_fields [simp]:
  "flow_run_tbl (example_remote st config) ''r1'' =
     Some \<lparr>data_name = ''run'', data_flow_id = ''f1'', data_state = st,
           data_storage = Some example_storage, data_run_config = config,
           data_flow_name = ''flow''\<rparr>"
  "task_run_tbl (example_remote st config) = Some [example_base]"
  "context_secrets (example_remote st config) = Some [''A'' \<mapsto> IntV 1]"
  by (simp_all add: example_remote_def)

lemma example_remote_reread:
  "from_flow_run_id ''r1'' True None (example_remote st config) =
     (Inl (Exception TypeError ''__init__() missing flow_id''),
      record_calls
        [Graphql_flow_run_by_pk ''r1'',
         Query_task_runs (where_any\<lparr>where_map_index := Some (- 1),
                            where_flow_run_id := Some ''r1''\<rparr>)] (example_remote st config))"
  by (rule example_remote_static) simp_all

text \<open>
  C1 fails on the code. The run \<open>r1\<close> is \<open>Running\<close> in the remote store and the unit of
  work raises \<open>RuntimeError()\<close>: the guard re-reads the run, the re-read raises the
  \<open>TypeError\<close> of the constructor call, and that error leaves the guard instead of the
  original one. The world afterwards differs from the one before by the two read calls
  only: no state was written (the run is still \<open>Running\<close>) and no log entry.
\<close>

theorem guard_running_raises:
  "fail_flow_run_on_exception C ''r1'' (Some ''Failed to execute flow: {exc}'')
       (\<lambda>w. (Inl (Exception RuntimeError ''RuntimeError()'') :: exn + unit, w))
       (example_remote Running (Some ''config''))
     = (Inl (Exception TypeError ''__init__() missing flow_id''),
        record_calls
          [Graphql_flow_run_by_pk ''r1'',
           Query_task_runs (where_any\<lparr>where_map_index := Some (- 1),
                              where_flow_run_id := Some ''r1''\<rparr>)]
          (example_remote Running (Some ''config'')))"
  by (simp add: fail_flow_run_on_exception_def example_remote_reread)

text \<open>
  C2 fails on the code. The run \<open>r1\<close> is \<open>Success\<close> in the remote store and the unit of
  work raises \<open>RuntimeError()\<close>: no state and no log entry is written, but what leaves the
  guard is the \<open>TypeError\<close> of the failed re-read, not the original error.
\<close>

theorem guard_terminal_raises:
  "fail_flow_run_on_exception C ''r1'' (Some ''Failed to execute flow: {exc}'')
       (\<lambda>w. (Inl (Exception RuntimeError ''RuntimeError()'') :: exn + unit, w))
       (example_remote Success (Some ''config''))
     = (Inl (Exception TypeError ''__init__() missing flow_id''),
        record_calls
          [Graphql_flow_run_by_pk ''r1'',
           Query_task_runs (where_any\<lparr>where_map_index := Some (- 1),
                              where_flow_run_id := Some ''r1''\<rparr>)]
          (example_remote Success (Some ''config'')))"
  by (simp add: fail_flow_run_on_exception_def example_remote_reread)


lemma from_flow_run_id_frame:
  "flow_run_tbl (snd (from_flow_run_id rid l extra w)) = flow_run_tbl w"
  "run_logs (snd (from_flow_run_id rid l extra w)) = run_logs w"
  using query_for_task_runs_world [of "where_any\<lparr>where_map_index := Some (- 1),
      where_flow_run_id := Some rid\<rparr>" True True "record_call (Graphql_flow_run_by_pk rid) w"]
  by (auto simp: from_flow_run_id_def Let_def split: option.splits prod.splits sum.splits)

lemma guard_handler_fails:
  assumes "body w = (Inl x, w1)" and "x \<noteq> SystemExit"
  shows "\<exists>e w2. from_flow_run_id rid True None w1 = (Inl e, w2) \<and>
           fail_flow_run_on_exception C rid message body w = (Inl e, w2)"
proof -
  obtain r w2 where f: "from_flow_run_id rid True None w1 = (r, w2)"
    by (cases "from_flow_run_id rid True None w1")
  with from_flow_run_id_raises [of rid True None w1] obtain e where r: "r = Inl e" by auto
  from assms f r have "fail_flow_run_on_exception C rid message body w = (Inl e, w2)"
    by (cases x) (simp_all add: fail_flow_run_on_exception_def)
  with f r show ?thesis by blast
qed

lemma guard_never_writes:
  "flow_run_tbl (snd (fail_flow_run_on_exception C rid message body w))
     = flow_run_tbl (snd (body w)) \<and>
   run_logs (snd (fail_flow_run_on_exception C rid message body w)) = run_logs (snd (body w))"
proof (cases "body w")
  case (Pair r w1)
  show ?thesis
  proof (cases r)
    case (Inr v)
    with Pair show ?thesis by (simp add: fail_flow_run_on_exception_def)
  next
    case (Inl x)
    show ?thesis
    proof (cases "x = SystemExit")
      case True
      with Pair Inl show ?thesis by (simp add: fail_flow_run_on_exception_def)
    next
      case False
      from Pair Inl have b: "body w = (Inl x, w1)" by simp
      from guard_handler_fails [where body = body and w = w, OF b False, of rid C message]
      obtain e w2 where "from_flow_run_id rid True None w1 = (Inl e, w2)"
        "fail_flow_run_on_exception C rid message body w = (Inl e, w2)" by blast
      with from_flow_run_id_frame [of rid True None w1] Pair show ?thesis by simp
    qed
  qed
qed

text \<open>
  What the handler of lines 104-118 would do with the answer of a re-read that returned:
  for a running run, exactly the state write to \<open>Failed\<close> with the formatted message
  followed by one log entry of level \<open>ERROR\<close> with that message, and the original error;
  for a run that is not running, the original error and nothing else.
\<close>

lemma fail_if_running_when_running:
  assumes "str_format C (message_or_default message) rp = Inr msg"
  shows "fail_if_running C rid message cls rp True w =
           (Inl (Exception cls rp),
            write_run_logs
              [\<lparr>log_flow_run_id = rid,
                log_name = ''prefect.backend.api.flow_run.execute_flow_run'',
                log_message = msg, log_level = ''ERROR''\<rparr>]
              (set_flow_run_state rid (Failed msg) w))"
    and "calls (snd (fail_if_running C rid message cls rp True w :: (exn + 'a) \<times> world)) =
           calls w @
           [Set_flow_run_state rid (Failed msg),
            Write_run_logs
              [\<lparr>log_flow_run_id = rid,
                log_name = ''prefect.backend.api.flow_run.execute_flow_run'',
                log_message = msg, log_level = ''ERROR''\<rparr>]]"
  using assms
  by (simp_all add: fail_if_running_def write_run_logs_def set_flow_run_state_def
      record_call_def split: option.splits)

lemma fail_if_running_when_not_running:
  "fail_if_running C rid message cls rp False w = (Inl (Exception cls rp), w)"
  by (simp add: fail_if_running_def)

lemma execute_flow_run_raises:
  "\<exists>e. fst (execute_flow_run C rid fl runner_cls kwargs w) = Inl e"
  using from_flow_run_id_raises [of rid True None w]
  by (auto simp: execute_flow_run_def split: prod.splits sum.splits)

text \<open>
  Whenever the merge of lines 56-66 goes through, the secrets handed on are \<open>secrets\<close>
  overridden by the caller's, and the executor is the caller's when the caller gave the
  key, else the flow's; a context or a \<open>secrets\<close> entry that is \<open>None\<close> makes it raise.
\<close>

lemma merge_secrets_result:
  assumes "merge_secrets sec f kwargs ctx = Inr kw"
  shows "\<exists>c s. kw_context kw = Given c \<and> ctx_secrets c = Given (sec ++ s) \<and>
           (case ctx_secrets ctx of Given s0 \<Rightarrow> s = s0 | _ \<Rightarrow> s = Map.empty) \<and>
           kw_executor kw =
             (case kw_executor kwargs of Absent \<Rightarrow> Given (executor f) | e \<Rightarrow> e)"
proof (cases "ctx_secrets ctx")
  case Absent
  with assms have "kw = kwargs
      \<lparr>kw_context := Given (ctx\<lparr>ctx_secrets := Given (sec ++ Map.empty)\<rparr>),
       kw_executor := (case kw_executor kwargs of Absent \<Rightarrow> Given (executor f) | e \<Rightarrow> e)\<rparr>"
    by (simp add: merge_secrets_def)
  with Absent show ?thesis by simp
next
  case PyNone
  with assms show ?thesis by (simp add: merge_secrets_def)
next
  case (Given s0)
  with assms have "kw = kwargs
      \<lparr>kw_context := Given (ctx\<lparr>ctx_secrets := Given (sec ++ s0)\<rparr>),
       kw_executor := (case kw_executor kwargs of Absent \<Rightarrow> Given (executor f) | e \<Rightarrow> e)\<rparr>"
    by (simp add: merge_secrets_def)
  with Given show ?thesis by simp
qed

lemma merge_run_kwargs_secrets:
  assumes "merge_run_kwargs sec f kwargs = Inr kw"
  shows "\<exists>c s. kw_context kw = Given c \<and> ctx_secrets c = Given (sec ++ s) \<and>
           (case kw_context kwargs of
              Given c0 \<Rightarrow> (case ctx_secrets c0 of Given s0 \<Rightarrow> s = s0 | _ \<Rightarrow> s = Map.empty)
            | _ \<Rightarrow> s = Map.empty) \<and>
           kw_executor kw =
             (case kw_executor kwargs of Absent \<Rightarrow> Given (executor f) | e \<Rightarrow> e)"
proof (cases "kw_context kwargs")
  case Absent
  with assms have "merge_secrets sec f kwargs \<lparr>ctx_secrets = Absent, ctx_other = []\<rparr> = Inr kw"
    by (simp add: merge_run_kwargs_def)
  from merge_secrets_result [OF this] Absent show ?thesis by simp
next
  case PyNone
  with assms show ?thesis by (simp add: merge_run_kwargs_def)
next
  case (Given c0)
  with assms have "merge_secrets sec f kwargs c0 = Inr kw"
    by (simp add: merge_run_kwargs_def)
  from merge_secrets_result [OF this] Given show ?thesis by simp
qed

lemma merge_run_kwargs_none:
  "kw_context kwargs = PyNone \<Longrightarrow>
     merge_run_kwargs sec f kwargs =
       Inl (Exception AttributeError ''NoneType object has no attribute get'')"
  "kw_context kwargs = Given c \<Longrightarrow> ctx_secrets c = PyNone \<Longrightarrow>
     merge_run_kwargs sec f kwargs =
       Inl (Exception TypeError ''NoneType object is not a mapping'')"
  by (simp_all add: merge_run_kwargs_def merge_secrets_def)

lemma example_secrets:
  "load_secrets example_collaborators ''r1'' True [''B''] [''A'' \<mapsto> IntV 1] w =
     (Inr [''A'' \<mapsto> IntV 1, ''B'' \<mapsto> IntV 2],
      (record_call (Secret_run ''B'') w)\<lparr>context_secrets := Some [''A'' \<mapsto> IntV 1, ''B'' \<mapsto> IntV 2]\<rparr>)"
  by (simp add: fail_flow_run_on_exception_def example_collaborators_def)

lemma example_merge:
  "merge_run_kwargs [''A'' \<mapsto> IntV 1, ''B'' \<mapsto> IntV 2] example_flow example_kwargs =
     Inr \<lparr>kw_context =
            Given \<lparr>ctx_secrets = Given [''A'' \<mapsto> IntV 1, ''B'' \<mapsto> IntV 3, ''C'' \<mapsto> IntV 4],
                   ctx_other = []\<rparr>,
          kw_executor = Given ''LocalExecutor'', kw_other = []\<rparr>"
  by (simp add: merge_run_kwargs_def merge_secrets_def example_kwargs_def example_flow_def)

lemma example_flow_run_fields [simp]:
  "flow_run_id (example_flow_run config) = ''r1''"
  "state (example_flow_run config) = Scheduled"
  "flow_storage (example_flow_run config) = Some example_storage"
  "flow_run_config (example_flow_run config) = config"
  "priv_task_runs (example_flow_run config) = [(''i1'', example_base)]"
  by (simp_all add: example_flow_run_def FlowRun_init_def add_task_run_def)


lemma world_update_fields [simp]:
  "flow_run_tbl (record_calls cs w) = flow_run_tbl w"
  "task_run_tbl (record_calls cs w) = task_run_tbl w"
  by (simp_all add: record_calls_def)

text \<open>
  C6 fails on the code. For a run without run config, \<open>execute_flow_run\<close> raises the
  \<open>TypeError\<close> of the constructor call at its line 29, before the environment is touched.
  Started from a run object built by the constructor itself, the rest of the function
  calls the environment's \<open>setup\<close> and then its \<open>execute\<close> and then raises
  \<open>UnboundLocalError\<close> at line 84, since \<open>flow_state\<close> is assigned on the other branch only:
  no refreshed run is returned either way.
\<close>

theorem execute_flow_run_legacy_raises:
  "execute_flow_run example_collaborators ''r1'' (Some example_flow) None example_kwargs
       (example_remote Scheduled None)
     = (Inl (Exception TypeError ''__init__() missing flow_id''),
        record_calls
          [Graphql_flow_run_by_pk ''r1'',
           Query_task_runs (where_any\<lparr>where_map_index := Some (- 1),
                              where_flow_run_id := Some ''r1''\<rparr>)]
          (example_remote Scheduled None)) \<and>
   execute_flow_run_body example_collaborators ''r1'' (Some example_flow) ''CloudFlowRunner''
       example_kwargs (example_flow_run None) (example_remote Scheduled None)
     = (Inl (Exception UnboundLocalError
               ''local variable flow_state referenced before assignment''),
        record_calls
          [Secret_run ''B'',
           Environment_setup ''LocalEnvironment'' example_flow,
           Environment_execute ''LocalEnvironment'' example_flow]
          ((example_remote Scheduled None)
             \<lparr>context_secrets := Some [''A'' \<mapsto> IntV 1, ''B'' \<mapsto> IntV 2]\<rparr>))"
proof -
  have a: "execute_flow_run example_collaborators ''r1'' (Some example_flow) None example_kwargs
       (example_remote Scheduled None)
     = (Inl (Exception TypeError ''__init__() missing flow_id''),
        record_calls
          [Graphql_flow_run_by_pk ''r1'',
           Query_task_runs (where_any\<lparr>where_map_index := Some (- 1),
                              where_flow_run_id := Some ''r1''\<rparr>)]
          (example_remote Scheduled None))"
    by (simp add: execute_flow_run_def example_remote_reread)
  have st: "execute_stage example_collaborators ''CloudFlowRunner'' example_flow kw
        (example_flow_run None) w =
      (Inr None, record_call (Environment_execute ''LocalEnvironment'' example_flow)
         (record_call (Environment_setup ''LocalEnvironment'' example_flow) w))" for kw w
    by (simp add: execute_stage_def example_collaborators_def example_flow_def)
  have b: "execute_flow_run_body example_collaborators ''r1'' (Some example_flow) ''CloudFlowRunner''
       example_kwargs (example_flow_run None) (example_remote Scheduled None)
     = (Inl (Exception UnboundLocalError
               ''local variable flow_state referenced before assignment''),
        record_calls
          [Secret_run ''B'',
           Environment_setup ''LocalEnvironment'' example_flow,
           Environment_execute ''LocalEnvironment'' example_flow]
          ((example_remote Scheduled None)
             \<lparr>context_secrets := Some [''A'' \<mapsto> IntV 1, ''B'' \<mapsto> IntV 2]\<rparr>))"
    by (simp add: execute_flow_run_body_def example_storage_def example_secrets
        fail_flow_run_on_exception_def st example_merge del: load_secrets.simps)
       (simp add: record_calls_def record_call_def)
  from a b show ?thesis by simp
qed

text \<open>
  C7 fails on the code. With the ambient secrets \<open>{A: 1}\<close>, the storage secret \<open>B\<close> resolved
  to \<open>2\<close> and the caller's secrets \<open>{B: 3, C: 4}\<close>, \<open>execute_flow_run\<close> raises the
  \<open>TypeError\<close> of the constructor call at its line 29 and never calls the runner. The merge
  itself is as the claim says: started from a run object built by the constructor, the
  rest of the function calls the runner with the secrets \<open>{A: 1, B: 3, C: 4}\<close> (and then
  fails in \<open>update\<close>).
\<close>

theorem execute_flow_run_config_raises:
  "execute_flow_run example_collaborators ''r1'' (Some example_flow) None example_kwargs
       (example_remote Scheduled (Some ''config''))
     = (Inl (Exception TypeError ''__init__() missing flow_id''),
        record_calls
          [Graphql_flow_run_by_pk ''r1'',
           Query_task_runs (where_any\<lparr>where_map_index := Some (- 1),
                              where_flow_run_id := Some ''r1''\<rparr>)]
          (example_remote Scheduled (Some ''config''))) \<and>
   execute_flow_run_body example_collaborators ''r1'' (Some example_flow) ''CloudFlowRunner''
       example_kwargs (example_flow_run (Some ''config''))
       (example_remote Scheduled (Some ''config''))
     = (Inl (Exception TypeError ''__init__() missing flow_id''),
        record_calls
          [Secret_run ''B'',
           Runner_run ''CloudFlowRunner'' example_flow
             \<lparr>kw_context =
                Given \<lparr>ctx_secrets = Given [''A'' \<mapsto> IntV 1, ''B'' \<mapsto> IntV 3, ''C'' \<mapsto> IntV 4],
                       ctx_other = []\<rparr>,
              kw_executor = Given ''LocalExecutor'', kw_other = []\<rparr>,
           Graphql_flow_run_by_pk ''r1'']
          ((example_remote Scheduled (Some ''config''))
             \<lparr>context_secrets := Some [''A'' \<mapsto> IntV 1, ''B'' \<mapsto> IntV 2]\<rparr>))"
proof -
  let ?W = "example_remote Scheduled (Some ''config'')"
  have a: "execute_flow_run example_collaborators ''r1'' (Some example_flow) None example_kwargs ?W
     = (Inl (Exception TypeError ''__init__() missing flow_id''),
        record_calls
          [Graphql_flow_run_by_pk ''r1'',
           Query_task_runs (where_any\<lparr>where_map_index := Some (- 1),
                              where_flow_run_id := Some ''r1''\<rparr>)] ?W)"
    by (simp add: execute_flow_run_def example_remote_reread)
  have st: "execute_stage example_collaborators ''CloudFlowRunner'' example_flow kw
        (example_flow_run (Some ''config'')) w =
      (Inr (Some Success), record_call (Runner_run ''CloudFlowRunner'' example_flow kw) w)" for kw w
    by (simp add: execute_stage_def example_collaborators_def)
  have up: "update (example_flow_run (Some ''config'')) w =
      (Inl (Exception TypeError ''__init__() missing flow_id''),
       record_call (Graphql_flow_run_by_pk ''r1'') w)"
    if "flow_run_tbl w ''r1'' = Some d" for w d
    using that by (simp add: update_def from_flow_run_id_def Let_def FlowRun_call_def)
  have b: "execute_flow_run_body example_collaborators ''r1'' (Some example_flow) ''CloudFlowRunner''
       example_kwargs (example_flow_run (Some ''config'')) ?W
     = (Inl (Exception TypeError ''__init__() missing flow_id''),
        record_calls
          [Secret_run ''B'',
           Runner_run ''CloudFlowRunner'' example_flow
             \<lparr>kw_context =
                Given \<lparr>ctx_secrets = Given [''A'' \<mapsto> IntV 1, ''B'' \<mapsto> IntV 3, ''C'' \<mapsto> IntV 4],
                       ctx_other = []\<rparr>,
              kw_executor = Given ''LocalExecutor'', kw_other = []\<rparr>,
           Graphql_flow_run_by_pk ''r1'']
          (?W\<lparr>context_secrets := Some [''A'' \<mapsto> IntV 1, ''B'' \<mapsto> IntV 2]\<rparr>))"
    by (simp add: execute_flow_run_body_def example_storage_def example_secrets
        fail_flow_run_on_exception_def st example_merge up del: load_secrets.simps)
       (simp add: record_calls_def record_call_def)
  from a b show ?thesis by simp
qed

end
